theory Spec2Isabelle
  imports Complex_Main "HOL-Library.Signed_Division"
begin

section \<open>Values of type double\<close>

text \<open>
  A C++ \<^verbatim>\<open>double\<close> is modelled by the value it denotes: a NaN, one of the two
  infinities, the negative zero, or a finite number (\<open>Fin 0\<close> is the positive zero).
  Every binary64 datum is such a value. Comparisons of doubles are exact, so they are
  defined here; \<^verbatim>\<open>==\<close> is \<open>deq\<close>, not HOL equality (a NaN differs from itself, the
  two zeros are equal).
\<close>

datatype double = NaN | NInf | NZero | Fin real | PInf

text \<open>\<^verbatim>\<open>std::numeric_limits<double>::quiet_NaN()\<close>\<close>

definition quiet_NaN :: double where
  "quiet_NaN = NaN"

fun isnan :: "double \<Rightarrow> bool" where
  "isnan NaN = True"
| "isnan _ = False"

text \<open>The order of the non-NaN values.\<close>

fun dless :: "double \<Rightarrow> double \<Rightarrow> bool" where
  "dless NInf NInf = False"
| "dless NInf _ = True"
| "dless _ NInf = False"
| "dless PInf _ = False"
| "dless _ PInf = True"
| "dless NZero NZero = False"
| "dless NZero (Fin b) = (0 < b)"
| "dless (Fin a) NZero = (a < 0)"
| "dless (Fin a) (Fin b) = (a < b)"
| "dless _ _ = False"

definition dlt :: "double \<Rightarrow> double \<Rightarrow> bool" where
  "dlt a b = (\<not> isnan a \<and> \<not> isnan b \<and> dless a b)"

definition dgt :: "double \<Rightarrow> double \<Rightarrow> bool" where
  "dgt a b = dlt b a"

definition deq :: "double \<Rightarrow> double \<Rightarrow> bool" where
  "deq a b = (\<not> isnan a \<and> \<not> isnan b \<and> \<not> dless a b \<and> \<not> dless b a)"

definition dne :: "double \<Rightarrow> double \<Rightarrow> bool" where
  "dne a b = (\<not> deq a b)"

definition dle :: "double \<Rightarrow> double \<Rightarrow> bool" where
  "dle a b = (dlt a b \<or> deq a b)"

definition dge :: "double \<Rightarrow> double \<Rightarrow> bool" where
  "dge a b = dle b a"

text \<open>Unary minus flips the sign and nothing else.\<close>

fun dneg :: "double \<Rightarrow> double" where
  "dneg NaN = NaN"
| "dneg NInf = PInf"
| "dneg PInf = NInf"
| "dneg NZero = Fin 0"
| "dneg (Fin a) = (if a = 0 then NZero else Fin (- a))"

text \<open>\<^verbatim>\<open>static_cast<double>\<close> of an \<^verbatim>\<open>int\<close>: every 32-bit integer is a double.\<close>

definition double_of_int :: "int \<Rightarrow> double" where
  "double_of_int i = Fin (real_of_int i)"

text \<open>
  The rounded arithmetic and the functions of \<^verbatim>\<open><cmath>\<close> are not part of the
  program: the model takes them as a parameter, a record of operations on doubles.
\<close>

record fp_ops =
  fadd :: "double \<Rightarrow> double \<Rightarrow> double"
  fsub :: "double \<Rightarrow> double \<Rightarrow> double"
  fmul :: "double \<Rightarrow> double \<Rightarrow> double"
  fdiv :: "double \<Rightarrow> double \<Rightarrow> double"
  fsqrt :: "double \<Rightarrow> double"
  fexp :: "double \<Rightarrow> double"
  fsin :: "double \<Rightarrow> double"
  fcos :: "double \<Rightarrow> double"
  fatan :: "double \<Rightarrow> double"
  fatan2 :: "double \<Rightarrow> double \<Rightarrow> double"
  fpow :: "double \<Rightarrow> double \<Rightarrow> double"

text \<open>
  One instance, used to run the model on concrete inputs: exact arithmetic on finite
  operands, NaN wherever an operand is not finite or the exact result is not defined.
\<close>

fun lift1 :: "(real \<Rightarrow> real) \<Rightarrow> double \<Rightarrow> double" where
  "lift1 f (Fin a) = Fin (f a)"
| "lift1 f NZero = Fin (f 0)"
| "lift1 f _ = NaN"

fun lift2 :: "(real \<Rightarrow> real \<Rightarrow> real) \<Rightarrow> double \<Rightarrow> double \<Rightarrow> double" where
  "lift2 f (Fin a) (Fin b) = Fin (f a b)"
| "lift2 f (Fin a) NZero = Fin (f a 0)"
| "lift2 f NZero (Fin b) = Fin (f 0 b)"
| "lift2 f NZero NZero = Fin (f 0 0)"
| "lift2 f _ _ = NaN"

definition exact_div :: "double \<Rightarrow> double \<Rightarrow> double" where
  "exact_div a b = (if deq b (Fin 0) then NaN else lift2 (\<lambda>x y. x / y) a b)"

definition exact_sqrt :: "double \<Rightarrow> double" where
  "exact_sqrt a = (if dlt a (Fin 0) then NaN else lift1 sqrt a)"

definition exact_atan2 :: "double \<Rightarrow> double \<Rightarrow> double" where
  "exact_atan2 y x = (if dgt x (Fin 0) then lift2 (\<lambda>b a. arctan (b / a)) y x else NaN)"

definition exact_pow :: "double \<Rightarrow> double \<Rightarrow> double" where
  "exact_pow a b = (if dgt a (Fin 0) then lift2 (\<lambda>x y. x powr y) a b else NaN)"

definition exact_ops :: fp_ops where
  "exact_ops = \<lparr> fadd = lift2 (\<lambda>x y. x + y), fsub = lift2 (\<lambda>x y. x - y),
     fmul = lift2 (\<lambda>x y. x * y), fdiv = exact_div, fsqrt = exact_sqrt,
     fexp = lift1 exp, fsin = lift1 sin, fcos = lift1 cos, fatan = lift1 arctan,
     fatan2 = exact_atan2, fpow = exact_pow \<rparr>"

subsection \<open>Signs of the arithmetic\<close>

text \<open>
  Two sets of doubles: those that are not below zero (a NaN, a zero of either sign, a
  positive number, the positive infinity) and those that in addition are not the negative
  zero.
\<close>

definition not_negative :: "double \<Rightarrow> bool" where
  "not_negative x = (isnan x \<or> dge x (Fin 0))"

definition positive_or_nan :: "double \<Rightarrow> bool" where
  "positive_or_nan x = (isnan x \<or> (x \<noteq> NZero \<and> dge x (Fin 0)))"

text \<open>
  What IEEE 754 and the C library fix about the sign of a result, whatever the rounding:
  the sign of a product or quotient is the exclusive or of the signs of the operands,
  \<^verbatim>\<open>exp\<close> has no negative result and \<^verbatim>\<open>pow\<close> of a base with a clear sign bit has none
  either. Every case may give a NaN (\<open>0 * inf\<close>, \<open>0 / 0\<close>, \<open>inf / inf\<close>, a NaN operand).
\<close>

definition ieee_signs :: "fp_ops \<Rightarrow> bool" where
  "ieee_signs fp =
    ((\<forall>x. positive_or_nan (fexp fp x)) \<and>
     (\<forall>x y. positive_or_nan x \<longrightarrow> positive_or_nan (fpow fp x y)) \<and>
     (\<forall>x y. not_negative x \<longrightarrow> not_negative y \<longrightarrow> not_negative (fmul fp x y)) \<and>
     (\<forall>x y. positive_or_nan x \<longrightarrow> positive_or_nan y \<longrightarrow> positive_or_nan (fmul fp x y)) \<and>
     (\<forall>x y. not_negative x \<longrightarrow> positive_or_nan y \<longrightarrow> not_negative (fdiv fp x y)) \<and>
     (\<forall>x y. positive_or_nan x \<longrightarrow> positive_or_nan y \<longrightarrow> positive_or_nan (fdiv fp x y)))"

section \<open>The driver\<close>

text \<open>
  \<^verbatim>\<open>main\<close> constructs an \<^verbatim>\<open>input_reader\<close> from its one argument. The reader is not
  part of the sources at hand; the model takes the outcome of its constructor as an
  input: it returns, it throws a \<^verbatim>\<open>ray_trace_exception\<close> (with the text of \<^verbatim>\<open>what()\<close>),
  or it throws anything else.
\<close>

datatype reader_outcome =
  Constructed
  | Throws_ray_trace_exception string
  | Throws_other

text \<open>The result of a run: what was written to standard output, and the exit status.\<close>

record run_result =
  stdout :: string
  exit_status :: int

definition newline :: string where
  "newline = [CHR 0x0A]"

definition main :: "int \<Rightarrow> reader_outcome \<Rightarrow> run_result" where
  "main argc reader =
     (if argc \<noteq> 2 then
        \<lparr> stdout = ''Error: Must give a single input file.'' @ newline, exit_status = 1 \<rparr>
      else
        (case reader of
           Constructed \<Rightarrow> \<lparr> stdout = [], exit_status = 0 \<rparr>
         | Throws_ray_trace_exception what \<Rightarrow> \<lparr> stdout = what, exit_status = 1 \<rparr>
         | Throws_other \<Rightarrow>
             \<lparr> stdout = ''Error: Could not read input file.'' @ newline, exit_status = 0 \<rparr>))"

section \<open>The input reader\<close>

text \<open>
  The enumerations of \<^verbatim>\<open>blacklight.hpp\<close> and the fields of \<^verbatim>\<open>InputReader\<close> that the
  radiation integrator reads. Neither declaration is part of the sources at hand; the
  constructor shows the fields it reads, each a \<^verbatim>\<open>std::optional\<close>, and the enumerators
  it compares with. The rendering options are arrays of optionals, by image and by
  feature.
\<close>

datatype ModelType = simulation | formula

datatype Coordinates = sph_ks | cart_ks

datatype PlasmaModel = ti_te_beta | code_kappa

datatype RenderType = fill | thresh | rise | fall

record InputReader =
  model_type :: "ModelType option"
  num_threads :: "int option"
  simulation_a :: "double option"
  formula_spin :: "double option"
  checkpoint_sample_save :: "bool option"
  checkpoint_sample_load :: "bool option"
  checkpoint_sample_file :: "string option"
  formula_mass :: "double option"
  formula_r0 :: "double option"
  formula_h :: "double option"
  formula_l0 :: "double option"
  formula_q :: "double option"
  formula_nup :: "double option"
  formula_cn0 :: "double option"
  formula_alpha :: "double option"
  formula_a :: "double option"
  formula_beta :: "double option"
  simulation_coord :: "Coordinates option"
  simulation_m_msun :: "double option"
  simulation_rho_cgs :: "double option"
  simulation_interp :: "bool option"
  simulation_block_interp :: "bool option"
  plasma_mu :: "double option"
  plasma_ne_ni :: "double option"
  plasma_model :: "PlasmaModel option"
  plasma_rat_low :: "double option"
  plasma_rat_high :: "double option"
  plasma_power_frac :: "double option"
  plasma_p :: "double option"
  plasma_gamma_min :: "double option"
  plasma_gamma_max :: "double option"
  plasma_kappa_frac :: "double option"
  plasma_kappa :: "double option"
  plasma_w :: "double option"
  plasma_sigma_max :: "double option"
  slow_light_on :: "bool option"
  slow_interp :: "bool option"
  slow_chunk_size :: "int option"
  slow_t_start :: "double option"
  slow_dt :: "double option"
  fallback_nan :: "bool option"
  fallback_rho :: "double option"
  fallback_pgas :: "double option"
  fallback_kappa :: "double option"
  camera_r :: "double option"
  camera_resolution :: "int option"
  image_light :: "bool option"
  image_frequency :: "double option"
  image_polarization :: "bool option"
  image_time :: "bool option"
  image_length :: "bool option"
  image_lambda :: "bool option"
  image_emission :: "bool option"
  image_tau :: "bool option"
  image_lambda_ave :: "bool option"
  image_emission_ave :: "bool option"
  image_tau_int :: "bool option"
  render_num_images :: "int option"
  render_num_features :: "int \<Rightarrow> int option"
  render_quantities :: "int \<Rightarrow> int \<Rightarrow> int option"
  render_types :: "int \<Rightarrow> int \<Rightarrow> RenderType option"
  render_thresh_vals :: "int \<Rightarrow> int \<Rightarrow> double option"
  render_min_vals :: "int \<Rightarrow> int \<Rightarrow> double option"
  render_max_vals :: "int \<Rightarrow> int \<Rightarrow> double option"
  render_opacities :: "int \<Rightarrow> int \<Rightarrow> double option"
  render_tau_scales :: "int \<Rightarrow> int \<Rightarrow> double option"
  render_x_vals :: "int \<Rightarrow> int \<Rightarrow> double option"
  render_y_vals :: "int \<Rightarrow> int \<Rightarrow> double option"
  render_z_vals :: "int \<Rightarrow> int \<Rightarrow> double option"
  ray_flat :: "bool option"
  adaptive_max_level :: "int option"
  adaptive_block_size :: "int option"
  adaptive_val_frac :: "double option"
  adaptive_val_cut :: "double option"
  adaptive_abs_grad_frac :: "double option"
  adaptive_abs_grad_cut :: "double option"
  adaptive_rel_grad_frac :: "double option"
  adaptive_rel_grad_cut :: "double option"
  adaptive_abs_lapl_frac :: "double option"
  adaptive_abs_lapl_cut :: "double option"
  adaptive_rel_lapl_frac :: "double option"
  adaptive_rel_lapl_cut :: "double option"

section \<open>The radiation integrator\<close>

text \<open>
  The members of \<^verbatim>\<open>RadiationIntegrator\<close> that the constructor sets from the input, and
  those that \<^verbatim>\<open>CalculateFormulaCoefficients\<close> and \<^verbatim>\<open>FindZTurnings\<close> read and write.
  An \<^verbatim>\<open>Array\<close> (its class is not part of the sources at hand, and its access operator
  checks no bounds) is a store from index tuples to values, and so is an array behind a
  pointer. \<^verbatim>\<open>FindZTurnings\<close> belongs to a revision in which \<^verbatim>\<open>sample_pos\<close> and \<^verbatim>\<open>image\<close>
  are arrays of per-level arrays: these two members are \<open>sample_pos_levels\<close> and
  \<open>image_levels\<close> here, indexed by the level first.
\<close>

record RadiationIntegrator =
  model_type :: ModelType
  num_threads :: int
  bh_m :: double
  bh_a :: double
  checkpoint_sample_save :: bool
  checkpoint_sample_load :: bool
  checkpoint_sample_file :: string
  formula_mass :: double
  formula_r0 :: double
  formula_h :: double
  formula_l0 :: double
  formula_q :: double
  formula_nup :: double
  formula_cn0 :: double
  formula_alpha :: double
  formula_a :: double
  formula_beta :: double
  simulation_coord :: Coordinates
  simulation_m_msun :: double
  simulation_rho_cgs :: double
  simulation_interp :: bool
  simulation_block_interp :: bool
  plasma_mu :: double
  plasma_ne_ni :: double
  plasma_model :: PlasmaModel
  plasma_rat_low :: double
  plasma_rat_high :: double
  plasma_power_frac :: double
  plasma_p :: double
  plasma_gamma_min :: double
  plasma_gamma_max :: double
  plasma_kappa_frac :: double
  plasma_kappa :: double
  plasma_w :: double
  plasma_thermal_frac :: double
  plasma_sigma_max :: double
  slow_light_on :: bool
  slow_interp :: bool
  slow_chunk_size :: int
  slow_t_start :: double
  slow_dt :: double
  fallback_nan :: bool
  fallback_rho :: double
  fallback_pgas :: double
  fallback_kappa :: double
  camera_r :: double
  camera_resolution :: int
  image_light :: bool
  image_frequency :: double
  image_polarization :: bool
  image_time :: bool
  image_length :: bool
  image_lambda :: bool
  image_emission :: bool
  image_tau :: bool
  image_lambda_ave :: bool
  image_emission_ave :: bool
  image_tau_int :: bool
  render_num_images :: int
  render_num_features :: "int \<Rightarrow> int"
  render_quantities :: "int \<times> int \<Rightarrow> int"
  render_types :: "int \<times> int \<Rightarrow> RenderType"
  render_thresh_vals :: "int \<times> int \<Rightarrow> double"
  render_min_vals :: "int \<times> int \<Rightarrow> double"
  render_max_vals :: "int \<times> int \<Rightarrow> double"
  render_opacities :: "int \<times> int \<Rightarrow> double"
  render_tau_scales :: "int \<times> int \<Rightarrow> double"
  render_x_vals :: "int \<times> int \<Rightarrow> double"
  render_y_vals :: "int \<times> int \<Rightarrow> double"
  render_z_vals :: "int \<times> int \<Rightarrow> double"
  ray_flat :: bool
  adaptive_max_level :: int
  adaptive_block_size :: int
  adaptive_val_frac :: double
  adaptive_val_cut :: double
  adaptive_abs_grad_frac :: double
  adaptive_abs_grad_cut :: double
  adaptive_rel_grad_frac :: double
  adaptive_rel_grad_cut :: double
  adaptive_abs_lapl_frac :: double
  adaptive_abs_lapl_cut :: double
  adaptive_rel_lapl_frac :: double
  adaptive_rel_lapl_cut :: double
  first_time :: bool
  momentum_factor :: double
  camera_num_pix :: int
  geodesic_num_steps :: int
  sample_flags :: "int \<Rightarrow> bool"
  sample_num :: "int \<Rightarrow> int"
  sample_pos :: "int \<times> int \<times> int \<Rightarrow> double"
  sample_dir :: "int \<times> int \<times> int \<Rightarrow> double"
  j_i :: "int \<times> int \<Rightarrow> double"
  alpha_i :: "int \<times> int \<Rightarrow> double"
  adaptive_level :: int
  cut_z_turnings :: int
  image_offset_z_turnings :: int
  sample_pos_levels :: "int \<Rightarrow> int \<times> int \<times> int \<Rightarrow> double"
  image_levels :: "int \<Rightarrow> int \<times> int \<Rightarrow> double"

subsection \<open>Construction\<close>

text \<open>
  The constructor throws \<^verbatim>\<open>BlacklightException\<close> with a message; \<^verbatim>\<open>value()\<close> on an
  empty \<^verbatim>\<open>std::optional\<close> throws \<^verbatim>\<open>std::bad_optional_access\<close>.
\<close>

datatype exception = BlacklightException string | bad_optional_access

text \<open>
  The object under construction, together with the exception thrown so far, if any, and
  the messages that \<^verbatim>\<open>BlacklightWarning\<close> has printed.
\<close>

record construction = RadiationIntegrator +
  thrown :: "exception option"
  warnings :: "string list"

type_synonym stmt = "construction \<Rightarrow> construction"

text \<open>A block of statements: a statement runs only while nothing has been thrown.\<close>

fun seq :: "stmt list \<Rightarrow> stmt" where
  "seq [] s = s"
| "seq (c # cs) s = (if thrown s = None then seq cs (c s) else s)"

definition throw :: "exception \<Rightarrow> stmt" where
  "throw e s = s\<lparr> thrown := Some e \<rparr>"

definition BlacklightWarning :: "string \<Rightarrow> stmt" where
  "BlacklightWarning message s = s\<lparr> warnings := warnings s @ [message] \<rparr>"

text \<open>
  \<open>value_then opt k\<close> is a statement that calls \<^verbatim>\<open>opt.value()\<close> and goes on with the
  value; \<open>copy opt member_update\<close> is the assignment \<^verbatim>\<open>member = opt.value()\<close>, and
  \<open>copy_at opt member_update i\<close> the assignment \<^verbatim>\<open>member[i] = opt.value()\<close>.
\<close>

definition value_then :: "'a option \<Rightarrow> ('a \<Rightarrow> stmt) \<Rightarrow> stmt" where
  "value_then opt k s = (case opt of None \<Rightarrow> throw bad_optional_access s | Some v \<Rightarrow> k v s)"

definition copy :: "'a option \<Rightarrow> (('a \<Rightarrow> 'a) \<Rightarrow> stmt) \<Rightarrow> stmt" where
  "copy opt member_update = value_then opt (\<lambda>v. member_update (\<lambda>_. v))"

definition copy_at :: "'a option \<Rightarrow> ((('i \<Rightarrow> 'a) \<Rightarrow> ('i \<Rightarrow> 'a)) \<Rightarrow> stmt) \<Rightarrow> 'i \<Rightarrow> stmt" where
  "copy_at opt member_update i = value_then opt (\<lambda>v. member_update (\<lambda>a. a(i := v)))"

text \<open>\<open>assign member_update e\<close> is \<^verbatim>\<open>member = e\<close> for an expression over the members.\<close>

definition assign :: "(('a \<Rightarrow> 'a) \<Rightarrow> stmt) \<Rightarrow> (construction \<Rightarrow> 'a) \<Rightarrow> stmt" where
  "assign member_update e s = member_update (\<lambda>_. e s) s"

definition if_then :: "(construction \<Rightarrow> bool) \<Rightarrow> stmt list \<Rightarrow> stmt" where
  "if_then b cs s = (if b s then seq cs s else s)"

definition if_then_else :: "(construction \<Rightarrow> bool) \<Rightarrow> stmt list \<Rightarrow> stmt list \<Rightarrow> stmt" where
  "if_then_else b cs ds s = (if b s then seq cs s else seq ds s)"

text \<open>\<^verbatim>\<open>for (int i = 0; i < n; i++)\<close> with a body that does not change \<^verbatim>\<open>n\<close>.\<close>

definition for_loop :: "(construction \<Rightarrow> int) \<Rightarrow> (int \<Rightarrow> stmt list) \<Rightarrow> stmt" where
  "for_loop n body s = seq (map (\<lambda>i. seq (body i)) [0 .. n s - 1]) s"

text \<open>
  The body of the constructor, block by block, down to the adaptive parameters. What
  follows in the source copies the camera and the geodesic data, allocates the arrays
  of each level and computes the image offsets; it reads no option of the input and
  throws no \<^verbatim>\<open>BlacklightException\<close>, and it is not modelled. The \<^verbatim>\<open>new\<close> expressions
  of the rendering block allocate the arrays that the loops fill, and are left out too.
\<close>

definition copy_general :: "InputReader \<Rightarrow> stmt list" where
  "copy_general inp =
    [copy (InputReader.model_type inp) model_type_update,
     copy (InputReader.num_threads inp) num_threads_update]"

definition set_parameters :: "InputReader \<Rightarrow> stmt list" where
  "set_parameters inp =
    [if_then_else (\<lambda>s. model_type s = simulation)
       [assign bh_m_update (\<lambda>s. Fin 1),
        copy (InputReader.simulation_a inp) bh_a_update]
       [assign bh_m_update (\<lambda>s. Fin 1),
        copy (InputReader.formula_spin inp) bh_a_update]]"

definition copy_checkpoint :: "InputReader \<Rightarrow> stmt list" where
  "copy_checkpoint inp =
    [if_then_else (\<lambda>s. model_type s = simulation)
       [copy (InputReader.checkpoint_sample_save inp) checkpoint_sample_save_update,
        copy (InputReader.checkpoint_sample_load inp) checkpoint_sample_load_update,
        if_then (\<lambda>s. checkpoint_sample_save s \<and> checkpoint_sample_load s)
          [throw (BlacklightException ''Cannot both save and load a sample checkpoint.'')],
        if_then (\<lambda>s. checkpoint_sample_save s \<or> checkpoint_sample_load s)
          [copy (InputReader.checkpoint_sample_file inp) checkpoint_sample_file_update]]
       [if_then (\<lambda>s. InputReader.checkpoint_sample_save inp = Some True)
          [BlacklightWarning ''Ignoring checkpoint_sample_save selection.''],
        if_then (\<lambda>s. InputReader.checkpoint_sample_load inp = Some True)
          [BlacklightWarning ''Ignoring checkpoint_sample_load selection.'']]]"

definition copy_formula :: "InputReader \<Rightarrow> stmt list" where
  "copy_formula inp =
    [if_then (\<lambda>s. model_type s = formula)
       [copy (InputReader.formula_mass inp) formula_mass_update,
        copy (InputReader.formula_r0 inp) formula_r0_update,
        copy (InputReader.formula_h inp) formula_h_update,
        copy (InputReader.formula_l0 inp) formula_l0_update,
        copy (InputReader.formula_q inp) formula_q_update,
        copy (InputReader.formula_nup inp) formula_nup_update,
        copy (InputReader.formula_cn0 inp) formula_cn0_update,
        copy (InputReader.formula_alpha inp) formula_alpha_update,
        copy (InputReader.formula_a inp) formula_a_update,
        copy (InputReader.formula_beta inp) formula_beta_update]]"

definition copy_simulation :: "InputReader \<Rightarrow> stmt list" where
  "copy_simulation inp =
    [if_then (\<lambda>s. model_type s = simulation)
       [copy (InputReader.simulation_coord inp) simulation_coord_update,
        copy (InputReader.simulation_m_msun inp) simulation_m_msun_update,
        copy (InputReader.simulation_rho_cgs inp) simulation_rho_cgs_update,
        copy (InputReader.simulation_interp inp) simulation_interp_update,
        if_then (\<lambda>s. simulation_interp s)
          [copy (InputReader.simulation_block_interp inp) simulation_block_interp_update]]]"

text \<open>The plasma parameters, in four groups.\<close>

definition plasma_composition :: "InputReader \<Rightarrow> stmt list" where
  "plasma_composition inp =
    [copy (InputReader.plasma_mu inp) plasma_mu_update,
     copy (InputReader.plasma_ne_ni inp) plasma_ne_ni_update,
     copy (InputReader.plasma_model inp) plasma_model_update,
     if_then (\<lambda>s. plasma_model s = ti_te_beta)
       [copy (InputReader.plasma_rat_low inp) plasma_rat_low_update,
        copy (InputReader.plasma_rat_high inp) plasma_rat_high_update]]"

definition plasma_power_law :: "InputReader \<Rightarrow> stmt list" where
  "plasma_power_law inp =
    [copy (InputReader.plasma_power_frac inp) plasma_power_frac_update,
     if_then (\<lambda>s. dlt (plasma_power_frac s) (Fin 0) \<or> dgt (plasma_power_frac s) (Fin 1))
       [BlacklightWarning ''Fraction of power-law electrons outside [0, 1].''],
     if_then (\<lambda>s. dne (plasma_power_frac s) (Fin 0))
       [copy (InputReader.plasma_p inp) plasma_p_update,
        copy (InputReader.plasma_gamma_min inp) plasma_gamma_min_update,
        copy (InputReader.plasma_gamma_max inp) plasma_gamma_max_update]]"

definition plasma_kappa_distribution :: "InputReader \<Rightarrow> stmt list" where
  "plasma_kappa_distribution inp =
    [copy (InputReader.plasma_kappa_frac inp) plasma_kappa_frac_update,
     if_then (\<lambda>s. dlt (plasma_kappa_frac s) (Fin 0) \<or> dgt (plasma_kappa_frac s) (Fin 1))
       [BlacklightWarning ''Fraction of kappa-distribution electrons outside [0, 1].''],
     if_then (\<lambda>s. dne (plasma_kappa_frac s) (Fin 0))
       [copy (InputReader.plasma_kappa inp) plasma_kappa_update,
        copy (InputReader.plasma_w inp) plasma_w_update]]"

definition plasma_thermal :: "fp_ops \<Rightarrow> InputReader \<Rightarrow> stmt list" where
  "plasma_thermal fp inp =
    [assign plasma_thermal_frac_update
       (\<lambda>s. fsub fp (Fin 1) (fadd fp (plasma_power_frac s) (plasma_kappa_frac s))),
     if_then (\<lambda>s. dlt (plasma_thermal_frac s) (Fin 0) \<or> dgt (plasma_thermal_frac s) (Fin 1))
       [BlacklightWarning ''Fraction of thermal electrons outside [0, 1].''],
     copy (InputReader.plasma_sigma_max inp) plasma_sigma_max_update]"

definition copy_plasma :: "fp_ops \<Rightarrow> InputReader \<Rightarrow> stmt list" where
  "copy_plasma fp inp =
    [if_then (\<lambda>s. model_type s = simulation)
       (plasma_composition inp @ plasma_power_law inp @ plasma_kappa_distribution inp @
        plasma_thermal fp inp)]"

definition copy_slow_light :: "InputReader \<Rightarrow> stmt list" where
  "copy_slow_light inp =
    [if_then (\<lambda>s. model_type s = simulation)
       [copy (InputReader.slow_light_on inp) slow_light_on_update,
        if_then (\<lambda>s. slow_light_on s)
          [if_then (\<lambda>s. checkpoint_sample_save s \<or> checkpoint_sample_load s)
             [throw (BlacklightException ''Cannot use sample checkpoints with slow light.'')],
           copy (InputReader.slow_interp inp) slow_interp_update,
           copy (InputReader.slow_chunk_size inp) slow_chunk_size_update,
           copy (InputReader.slow_t_start inp) slow_t_start_update,
           copy (InputReader.slow_dt inp) slow_dt_update]]]"

definition copy_fallback :: "InputReader \<Rightarrow> stmt list" where
  "copy_fallback inp =
    [copy (InputReader.fallback_nan inp) fallback_nan_update,
     if_then (\<lambda>s. model_type s = simulation \<and> \<not> fallback_nan s)
       [copy (InputReader.fallback_rho inp) fallback_rho_update,
        if_then (\<lambda>s. plasma_model s = ti_te_beta)
          [copy (InputReader.fallback_pgas inp) fallback_pgas_update],
        if_then (\<lambda>s. plasma_model s = code_kappa)
          [copy (InputReader.fallback_kappa inp) fallback_kappa_update]]]"

definition copy_camera :: "InputReader \<Rightarrow> stmt list" where
  "copy_camera inp =
    [copy (InputReader.camera_r inp) camera_r_update,
     copy (InputReader.camera_resolution inp) camera_resolution_update]"

text \<open>The image parameters: the light, then the other selections.\<close>

definition image_light_selection :: "InputReader \<Rightarrow> stmt list" where
  "image_light_selection inp =
    [copy (InputReader.image_light inp) image_light_update,
     if_then_else (\<lambda>s. image_light s)
       [copy (InputReader.image_frequency inp) image_frequency_update,
        if_then_else (\<lambda>s. model_type s = simulation)
          [copy (InputReader.image_polarization inp) image_polarization_update]
          [if_then (\<lambda>s. InputReader.image_polarization inp = Some True)
             [BlacklightWarning ''Ignoring image_polarization selection.'']],
        if_then (\<lambda>s. model_type s = simulation \<and> image_polarization s \<and>
                     dne (plasma_kappa_frac s) (Fin 0))
          [if_then_else (\<lambda>s. dlt (plasma_kappa s) (Fin (7 / 2)) \<or> dgt (plasma_kappa s) (Fin 5))
             [throw (BlacklightException
                ''Polarized transport only supports kappa in [3.5, 5].'')]
             [if_then (\<lambda>s. dne (plasma_kappa s) (Fin (7 / 2)) \<and> dne (plasma_kappa s) (Fin 4) \<and>
                          dne (plasma_kappa s) (Fin (9 / 2)) \<and> dne (plasma_kappa s) (Fin 5))
                [BlacklightWarning
                   ''Polarized transport will interpolate formulas based on kappa.'']]]]
       [if_then (\<lambda>s. InputReader.image_polarization inp = Some True)
          [BlacklightWarning ''Ignoring image_polarization selection.'']]]"

definition image_other_selections :: "InputReader \<Rightarrow> stmt list" where
  "image_other_selections inp =
    [copy (InputReader.image_time inp) image_time_update,
     copy (InputReader.image_length inp) image_length_update,
     copy (InputReader.image_lambda inp) image_lambda_update,
     copy (InputReader.image_emission inp) image_emission_update,
     copy (InputReader.image_tau inp) image_tau_update,
     if_then_else (\<lambda>s. model_type s = simulation)
       [copy (InputReader.image_lambda_ave inp) image_lambda_ave_update,
        copy (InputReader.image_emission_ave inp) image_emission_ave_update,
        copy (InputReader.image_tau_int inp) image_tau_int_update]
       [if_then (\<lambda>s. InputReader.image_lambda_ave inp = Some True)
          [BlacklightWarning ''Ignoring image_lambda_ave selection.''],
        assign image_lambda_ave_update (\<lambda>s. False),
        if_then (\<lambda>s. InputReader.image_emission_ave inp = Some True)
          [BlacklightWarning ''Ignoring image_emission_ave selection.''],
        assign image_emission_ave_update (\<lambda>s. False),
        if_then (\<lambda>s. InputReader.image_tau_int inp = Some True)
          [BlacklightWarning ''Ignoring image_tau_int selection.''],
        assign image_tau_int_update (\<lambda>s. False)]]"

definition copy_image :: "InputReader \<Rightarrow> stmt list" where
  "copy_image inp = image_light_selection inp @ image_other_selections inp"

text \<open>The features of rendered image \<open>n_i\<close>: the body of the inner loop.\<close>

definition copy_feature :: "InputReader \<Rightarrow> int \<Rightarrow> int \<Rightarrow> stmt list" where
  "copy_feature inp n_i n_f =
    [copy_at (InputReader.render_quantities inp n_i n_f) render_quantities_update (n_i, n_f),
     copy_at (InputReader.render_types inp n_i n_f) render_types_update (n_i, n_f),
     if_then (\<lambda>s. render_types s (n_i, n_f) = rise \<or> render_types s (n_i, n_f) = fall)
       [copy_at (InputReader.render_thresh_vals inp n_i n_f) render_thresh_vals_update (n_i, n_f),
        copy_at (InputReader.render_opacities inp n_i n_f) render_opacities_update (n_i, n_f)],
     if_then (\<lambda>s. render_types s (n_i, n_f) = fill)
       [copy_at (InputReader.render_min_vals inp n_i n_f) render_min_vals_update (n_i, n_f),
        copy_at (InputReader.render_max_vals inp n_i n_f) render_max_vals_update (n_i, n_f),
        copy_at (InputReader.render_tau_scales inp n_i n_f) render_tau_scales_update (n_i, n_f)],
     copy_at (InputReader.render_x_vals inp n_i n_f) render_x_vals_update (n_i, n_f),
     copy_at (InputReader.render_y_vals inp n_i n_f) render_y_vals_update (n_i, n_f),
     copy_at (InputReader.render_z_vals inp n_i n_f) render_z_vals_update (n_i, n_f)]"

text \<open>The rendering parameters: the number of images, then the features of each.\<close>

definition rendering_count :: "InputReader \<Rightarrow> stmt list" where
  "rendering_count inp =
    [if_then_else (\<lambda>s. model_type s = simulation)
       [copy (InputReader.render_num_images inp) render_num_images_update]
       [if_then (\<lambda>s. case InputReader.render_num_images inp of
                        None \<Rightarrow> False | Some k \<Rightarrow> k > 0)
          [BlacklightWarning ''Ignoring request for rendering.''],
        assign render_num_images_update (\<lambda>s. 0)]]"

definition rendering_features :: "InputReader \<Rightarrow> stmt list" where
  "rendering_features inp =
    [if_then (\<lambda>s. render_num_images s > 0)
       [for_loop (\<lambda>s. render_num_images s) (\<lambda>n_i.
          [value_then (InputReader.render_num_features inp n_i) (\<lambda>num_features. seq
             [if_then (\<lambda>s. num_features \<le> 0)
                [throw (BlacklightException
                   ''Must have positive number of features for each rendered image.'')],
              assign render_num_features_update
                (\<lambda>s. (render_num_features s)(n_i := num_features)),
              for_loop (\<lambda>s. num_features) (copy_feature inp n_i)])])]]"

definition copy_rendering :: "InputReader \<Rightarrow> stmt list" where
  "copy_rendering inp = rendering_count inp @ rendering_features inp"

definition check_selection :: "stmt list" where
  "check_selection =
    [if_then (\<lambda>s. \<not> (image_light s \<or> image_time s \<or> image_length s \<or> image_lambda s \<or>
                       image_emission s \<or> image_tau s \<or> image_lambda_ave s \<or>
                       image_emission_ave s \<or> image_tau_int s \<or> render_num_images s > 0))
       [throw (BlacklightException ''No image or rendering selected.'')]]"

definition copy_ray :: "InputReader \<Rightarrow> stmt list" where
  "copy_ray inp = [copy (InputReader.ray_flat inp) ray_flat_update]"

text \<open>
  The adaptive parameters: the checks of the block size, then the refinement criteria.
  \<^verbatim>\<open>%\<close> is the remainder of the division that truncates, \<open>smod\<close>.
\<close>

definition adaptive_blocks :: "InputReader \<Rightarrow> stmt list" where
  "adaptive_blocks inp =
    [if_then (\<lambda>s. \<not> image_light s)
       [throw (BlacklightException ''Adaptive ray tracing requires image_light.'')],
     copy (InputReader.adaptive_block_size inp) adaptive_block_size_update,
     if_then (\<lambda>s. adaptive_block_size s \<le> 0)
       [throw (BlacklightException ''Must have positive adaptive_block_size.'')],
     if_then (\<lambda>s. camera_resolution s smod adaptive_block_size s \<noteq> 0)
       [throw (BlacklightException
          ''Must have adaptive_block_size divide camera_resolution.'')]]"

definition adaptive_criteria :: "InputReader \<Rightarrow> stmt list" where
  "adaptive_criteria inp =
    [copy (InputReader.adaptive_val_frac inp) adaptive_val_frac_update,
     if_then (\<lambda>s. dge (adaptive_val_frac s) (Fin 0))
       [copy (InputReader.adaptive_val_cut inp) adaptive_val_cut_update],
     copy (InputReader.adaptive_abs_grad_frac inp) adaptive_abs_grad_frac_update,
     if_then (\<lambda>s. dge (adaptive_abs_grad_frac s) (Fin 0))
       [copy (InputReader.adaptive_abs_grad_cut inp) adaptive_abs_grad_cut_update],
     copy (InputReader.adaptive_rel_grad_frac inp) adaptive_rel_grad_frac_update,
     if_then (\<lambda>s. dge (adaptive_rel_grad_frac s) (Fin 0))
       [copy (InputReader.adaptive_rel_grad_cut inp) adaptive_rel_grad_cut_update],
     copy (InputReader.adaptive_abs_lapl_frac inp) adaptive_abs_lapl_frac_update,
     if_then (\<lambda>s. dge (adaptive_abs_lapl_frac s) (Fin 0))
       [copy (InputReader.adaptive_abs_lapl_cut inp) adaptive_abs_lapl_cut_update],
     copy (InputReader.adaptive_rel_lapl_frac inp) adaptive_rel_lapl_frac_update,
     if_then (\<lambda>s. dge (adaptive_rel_lapl_frac s) (Fin 0))
       [copy (InputReader.adaptive_rel_lapl_cut inp) adaptive_rel_lapl_cut_update]]"

definition copy_adaptive :: "InputReader \<Rightarrow> stmt list" where
  "copy_adaptive inp =
    [copy (InputReader.adaptive_max_level inp) adaptive_max_level_update,
     if_then (\<lambda>s. adaptive_max_level s > 0) (adaptive_blocks inp @ adaptive_criteria inp)]"

text \<open>
  The constructor. \<open>init\<close> is the object as the default member initialisers of the class
  leave it (the class declaration is not part of the sources at hand). The result holds
  the exception that ended the construction, or none.
\<close>

definition RadiationIntegrator_ctor ::
  "fp_ops \<Rightarrow> InputReader \<Rightarrow> RadiationIntegrator \<Rightarrow> construction" where
  "RadiationIntegrator_ctor fp inp init =
     seq [seq (copy_general inp), seq (set_parameters inp), seq (copy_checkpoint inp),
          seq (copy_formula inp), seq (copy_simulation inp), seq (copy_plasma fp inp),
          seq (copy_slow_light inp), seq (copy_fallback inp), seq (copy_camera inp),
          seq (copy_image inp), seq (copy_rendering inp), seq check_selection,
          seq (copy_ray inp), seq (copy_adaptive inp)]
       (RadiationIntegrator.extend init (construction.fields None []))"

subsection \<open>Formula radiative transfer coefficients\<close>

text \<open>
  What the program does not define itself: the arithmetic, the member function
  \<^verbatim>\<open>RadialGeodesicCoordinate\<close> and the content of the storage that
  \<^verbatim>\<open>Array::Allocate\<close> hands out.
\<close>

record environment =
  ops :: fp_ops
  RadialGeodesicCoordinate :: "double \<Rightarrow> double \<Rightarrow> double \<Rightarrow> double"
  allocated_j_i :: "int \<times> int \<Rightarrow> double"
  allocated_alpha_i :: "int \<times> int \<Rightarrow> double"

text \<open>
  The local variables of the sample loop that the frequency and the two coefficients are
  computed from: the photon momentum, the fluid 4-velocity and the number density.
\<close>

record kinematics =
  k_0 :: double
  k_1 :: double
  k_2 :: double
  k_3 :: double
  u0 :: double
  u1 :: double
  u2 :: double
  u3 :: double
  n_n0_fluid :: double

text \<open>The frequency and the two fluid-frame coefficients in CGS units.\<close>

record fluid_frame =
  nu_fluid_cgs :: double
  j_nu_fluid_cgs :: double
  alpha_nu_fluid_cgs :: double

text \<open>
  The body of the sample loop down to the number density. Products and quotients
  associate to the left, as in C++; \<^verbatim>\<open>-r * sph\<close> negates \<^verbatim>\<open>r\<close> first.
\<close>

definition sample_kinematics ::
  "environment \<Rightarrow> RadiationIntegrator \<Rightarrow> int \<Rightarrow> int \<Rightarrow> kinematics" where
  "sample_kinematics env this m n =
    (let add = fadd (ops env); sub = fsub (ops env); mul = fmul (ops env);
         quot = fdiv (ops env);
         x = sample_pos this (m, n, 1);
         y = sample_pos this (m, n, 2);
         z = sample_pos this (m, n, 3);
         k0 = sample_dir this (m, n, 0);
         k1 = sample_dir this (m, n, 1);
         k2 = sample_dir this (m, n, 2);
         k3 = sample_dir this (m, n, 3);
         r = RadialGeodesicCoordinate env x y z;
         rr = fsqrt (ops env) (sub (mul r r) (mul z z));
         cth = quot z r;
         sth = fsqrt (ops env) (sub (Fin 1) (mul cth cth));
         ph = sub (fatan2 (ops env) y x) (fatan (ops env) (quot (bh_a this) r));
         sph = fsin (ops env) ph;
         cph = fcos (ops env) ph;
         delta = add (sub (mul r r) (mul (mul (Fin 2) (bh_m this)) r))
                     (mul (bh_a this) (bh_a this));
         sigma = add (mul r r) (mul (mul (mul (bh_a this) (bh_a this)) cth) cth);
         gtt_bl = dneg (add (Fin 1)
                    (quot (mul (mul (mul (Fin 2) (bh_m this)) r)
                               (add (mul r r) (mul (bh_a this) (bh_a this))))
                          (mul delta sigma)));
         gtph_bl = quot (mul (mul (mul (Fin (- 2)) (bh_m this)) (bh_a this)) r)
                        (mul delta sigma);
         grr_bl = quot delta sigma;
         gthth_bl = quot (Fin 1) sigma;
         gphph_bl = quot (sub sigma (mul (mul (Fin 2) (bh_m this)) r))
                         (mul (mul (mul delta sigma) sth) sth);
         ll = mul (quot (formula_l0 this) (add (Fin 1) rr))
                  (fpow (ops env) rr (add (Fin 1) (formula_q this)));
         u_norm = quot (Fin 1)
                    (fsqrt (ops env)
                       (sub (add (dneg gtt_bl) (mul (mul (Fin 2) gtph_bl) ll))
                            (mul (mul gphph_bl ll) ll)));
         u_t_bl = dneg u_norm;
         u_r_bl = Fin 0;
         u_th_bl = Fin 0;
         u_ph_bl = mul u_norm ll;
         ut_bl = add (mul gtt_bl u_t_bl) (mul gtph_bl u_ph_bl);
         ur_bl = mul grr_bl u_r_bl;
         uth_bl = mul gthth_bl u_th_bl;
         uph_bl = add (mul gtph_bl u_t_bl) (mul gphph_bl u_ph_bl);
         ut = add ut_bl (mul (quot (mul (mul (Fin 2) (bh_m this)) r) delta) ur_bl);
         ur = ur_bl;
         uth = uth_bl;
         uph = add uph_bl (mul (quot (bh_a this) delta) ur_bl);
         v0 = ut;
         v1 = add (add (mul (mul sth cph) ur)
                       (mul (mul cth (sub (mul r cph) (mul (bh_a this) sph))) uth))
                  (mul (mul sth (sub (mul (dneg r) sph) (mul (bh_a this) cph))) uph);
         v2 = add (add (mul (mul sth sph) ur)
                       (mul (mul cth (add (mul r sph) (mul (bh_a this) cph))) uth))
                  (mul (mul sth (sub (mul r cph) (mul (bh_a this) sph))) uph);
         v3 = sub (mul cth ur) (mul (mul r sth) uth);
         dens = fexp (ops env)
                  (mul (Fin (- (1 / 2)))
                     (add (quot (mul r r) (mul (formula_r0 this) (formula_r0 this)))
                          (mul (mul (mul (formula_h this) (formula_h this)) cth) cth)))
     in \<lparr> k_0 = k0, k_1 = k1, k_2 = k2, k_3 = k3, u0 = v0, u1 = v1, u2 = v2, u3 = v3,
          n_n0_fluid = dens \<rparr>)"

text \<open>The rest of the body up to the two stores.\<close>

definition sample_fluid_frame ::
  "environment \<Rightarrow> RadiationIntegrator \<Rightarrow> int \<Rightarrow> int \<Rightarrow> fluid_frame" where
  "sample_fluid_frame env this m n =
    (let add = fadd (ops env); sub = fsub (ops env); mul = fmul (ops env);
         quot = fdiv (ops env);
         g = sample_kinematics env this m n;
         nu = mul (dneg (add (add (add (mul (u0 g) (k_0 g)) (mul (u1 g) (k_1 g)))
                                  (mul (u2 g) (k_2 g)))
                             (mul (u3 g) (k_3 g))))
                  (momentum_factor this);
         j_nu = mul (mul (formula_cn0 this) (n_n0_fluid g))
                    (fpow (ops env) (quot nu (formula_nup this)) (dneg (formula_alpha this)));
         alpha_nu = mul (mul (mul (formula_a this) (formula_cn0 this)) (n_n0_fluid g))
                        (fpow (ops env) (quot nu (formula_nup this))
                           (sub (dneg (formula_beta this)) (formula_alpha this)))
     in \<lparr> nu_fluid_cgs = nu, j_nu_fluid_cgs = j_nu, alpha_nu_fluid_cgs = alpha_nu \<rparr>)"

text \<open>One iteration of the sample loop: the locals, then the two stores.\<close>

definition formula_sample ::
  "environment \<Rightarrow> int \<Rightarrow> int \<Rightarrow> RadiationIntegrator \<Rightarrow> RadiationIntegrator" where
  "formula_sample env m n this =
    (let f = sample_fluid_frame env this m n in
     this\<lparr> j_i := (j_i this)((m, n) :=
                fdiv (ops env) (j_nu_fluid_cgs f)
                  (fmul (ops env) (nu_fluid_cgs f) (nu_fluid_cgs f))),
            alpha_i := (alpha_i this)((m, n) :=
                fmul (ops env) (alpha_nu_fluid_cgs f) (nu_fluid_cgs f)) \<rparr>)"

text \<open>One iteration of the loop that sets a pixel to NaN.\<close>

definition nan_sample :: "int \<Rightarrow> int \<Rightarrow> RadiationIntegrator \<Rightarrow> RadiationIntegrator" where
  "nan_sample m n this =
     this\<lparr> j_i := (j_i this)((m, n) := quiet_NaN),
            alpha_i := (alpha_i this)((m, n) := quiet_NaN) \<rparr>"

text \<open>
  One iteration of the pixel loop. The loop is an OpenMP \<^verbatim>\<open>parallel for\<close>; an iteration
  writes only the cells of its own pixel and reads no cell of \<^verbatim>\<open>j_i\<close> or \<^verbatim>\<open>alpha_i\<close>, so
  the model runs the iterations in order.
\<close>

definition formula_pixel ::
  "environment \<Rightarrow> int \<Rightarrow> RadiationIntegrator \<Rightarrow> RadiationIntegrator" where
  "formula_pixel env m this =
    (let num_steps = sample_num this m in
     if num_steps \<le> 0 then this
     else if fallback_nan this \<and> sample_flags this m then
       fold (nan_sample m) [0 .. num_steps - 1] this
     else
       fold (formula_sample env m) [0 .. num_steps - 1] this)"

definition CalculateFormulaCoefficients ::
  "environment \<Rightarrow> RadiationIntegrator \<Rightarrow> RadiationIntegrator" where
  "CalculateFormulaCoefficients env this =
    (let this1 = (if first_time this
                  then this\<lparr> j_i := allocated_j_i env, alpha_i := allocated_alpha_i env \<rparr>
                  else this)
     in fold (formula_pixel env) [0 .. camera_num_pix this1 - 1] this1)"

text \<open>
  The value that a call leaves in cell \<open>(m, n)\<close> of a pixel \<open>m\<close> with more than \<open>n\<close>
  samples: the NaN of a flagged pixel, or what the two stores of the sample loop compute.
\<close>

abbreviation stored_j :: "environment \<Rightarrow> RadiationIntegrator \<Rightarrow> int \<Rightarrow> int \<Rightarrow> double" where
  "stored_j env this m n \<equiv>
     fdiv (ops env) (j_nu_fluid_cgs (sample_fluid_frame env this m n))
       (fmul (ops env) (nu_fluid_cgs (sample_fluid_frame env this m n))
          (nu_fluid_cgs (sample_fluid_frame env this m n)))"

abbreviation stored_alpha :: "environment \<Rightarrow> RadiationIntegrator \<Rightarrow> int \<Rightarrow> int \<Rightarrow> double" where
  "stored_alpha env this m n \<equiv>
     fmul (ops env) (alpha_nu_fluid_cgs (sample_fluid_frame env this m n))
       (nu_fluid_cgs (sample_fluid_frame env this m n))"

definition cell_j :: "environment \<Rightarrow> RadiationIntegrator \<Rightarrow> int \<Rightarrow> int \<Rightarrow> double" where
  "cell_j env this m n =
     (if fallback_nan this \<and> sample_flags this m then quiet_NaN else stored_j env this m n)"

definition cell_alpha :: "environment \<Rightarrow> RadiationIntegrator \<Rightarrow> int \<Rightarrow> int \<Rightarrow> double" where
  "cell_alpha env this m n =
     (if fallback_nan this \<and> sample_flags this m then quiet_NaN
      else stored_alpha env this m n)"

subsection \<open>Counting the turnings in z\<close>

definition MIN_DIFF_N :: int where
  "MIN_DIFF_N = 10"

text \<open>
  An \<^verbatim>\<open>int\<close> has 32 bits. The result of an operation on \<^verbatim>\<open>int\<close> is the two's-complement
  value of the exact result: out of range it wraps around. (The language leaves the
  overflow of a signed integer undefined; this is what the compiled code computes.)
\<close>

definition wrap_int :: "int \<Rightarrow> int" where
  "wrap_int i = (i + 2147483648) mod 4294967296 - 2147483648"

text \<open>The values of an \<^verbatim>\<open>int\<close>.\<close>

definition is_int :: "int \<Rightarrow> bool" where
  "is_int i = (- 2147483648 \<le> i \<and> i \<le> 2147483647)"

text \<open>
  Whether the body of the scan counts a turning at step \<open>n\<close> of ray \<open>m\<close>: the product
  \<^verbatim>\<open>find_1\<close> of the two neighbouring differences in \<open>z\<close> is negative, or it is zero and
  the product \<^verbatim>\<open>find_n\<close> of the differences at distance \<^verbatim>\<open>MIN_DIFF_N\<close> is negative. Both
  branches of the source then run the same two statements, \<^verbatim>\<open>z_turnings_count++\<close> and
  \<^verbatim>\<open>n -= MIN_DIFF_N\<close>. The indices are computed in \<^verbatim>\<open>int\<close>.
\<close>

definition turning_at :: "fp_ops \<Rightarrow> RadiationIntegrator \<Rightarrow> int \<Rightarrow> int \<Rightarrow> bool" where
  "turning_at fp this m n =
    (let z = (\<lambda>k. sample_pos_levels this (adaptive_level this) (m, k, 3));
         find_1 = fmul fp (fsub fp (z (wrap_int (n + 1))) (z n))
                          (fsub fp (z n) (z (wrap_int (n - 1))))
     in if dlt find_1 (Fin 0) then True
        else if deq find_1 (Fin 0) then
          (let find_n = fmul fp (fsub fp (z (wrap_int (n + MIN_DIFF_N))) (z n))
                                (fsub fp (z n) (z (wrap_int (n - MIN_DIFF_N))))
           in dlt find_n (Fin 0))
        else False)"

text \<open>
  The \<^verbatim>\<open>for\<close> loop, from \<open>n\<close> downwards; \<open>wrap_int (n1 - 1)\<close> is the loop's own \<^verbatim>\<open>n--\<close>.
  The two reference parameters \<^verbatim>\<open>n_start\<close> and \<^verbatim>\<open>z_turnings_count\<close> are passed in and
  returned. Every operation on a counter is an operation on \<^verbatim>\<open>int\<close>. The loop ends: from
  a step \<open>n >= 10\<close> the next step is below \<open>n\<close>, also when \<open>n\<close> is no value of an \<^verbatim>\<open>int\<close>.
\<close>

function FindZTurnings_loop ::
  "fp_ops \<Rightarrow> RadiationIntegrator \<Rightarrow> int \<Rightarrow> int \<Rightarrow> int \<Rightarrow> int \<Rightarrow> int \<times> int" where
  "FindZTurnings_loop fp this m n n_start z_turnings_count =
    (if n \<ge> MIN_DIFF_N then
       (let turning = turning_at fp this m n;
            count1 = (if turning then wrap_int (z_turnings_count + 1) else z_turnings_count);
            n1 = (if turning then wrap_int (n - MIN_DIFF_N) else n);
            n_start1 = (if cut_z_turnings this \<ge> 0 \<and> n_start < 0 \<and>
                           count1 = wrap_int (cut_z_turnings this + 1)
                        then n1 else n_start)
        in FindZTurnings_loop fp this m (wrap_int (n1 - 1)) n_start1 count1)
     else (n_start, z_turnings_count))"
  by pat_completeness auto
termination
proof (relation "measure (\<lambda>(fp, this, m, n, n_start, c). nat n)", goal_cases)
  case 1
  show ?case by simp
next
  case (2 fp this m n n_start c turning count1 n1 n_start1)
  have below: "wrap_int i < 2147483648" for i
    unfolding wrap_int_def using pos_mod_bound [of 4294967296 "i + 2147483648"] by simp
  have same: "wrap_int i = i" if "- 2147483648 \<le> i" "i < 2147483648" for i
    unfolding wrap_int_def using that by (simp add: mod_pos_pos_trivial)
  from 2 have n: "10 \<le> n" and n1: "n1 = n \<or> n1 = wrap_int (n - 10)"
    by (auto simp: MIN_DIFF_N_def)
  have "wrap_int (n1 - 1) < n"
  proof (cases "n < 2147483648")
    case True
    with n n1 have "n1 = n \<or> n1 = n - 10"
      by (auto simp: same)
    with n True show ?thesis
      by (auto simp: same)
  next
    case False
    with below [of "n1 - 1"] show ?thesis
      by simp
  qed
  with n show ?case
    by simp
qed

text \<open>
  The function: the start \<^verbatim>\<open>num_steps - MIN_DIFF_N - 1\<close> of the scan, the loop, then the
  store into the channel of the image.
\<close>

definition FindZTurnings ::
  "fp_ops \<Rightarrow> RadiationIntegrator \<Rightarrow> int \<Rightarrow> int \<Rightarrow> int \<Rightarrow> int \<Rightarrow> RadiationIntegrator \<times> int \<times> int" where
  "FindZTurnings fp this m num_steps n_start z_turnings_count =
    (let (n_start', z_turnings_count') =
           FindZTurnings_loop fp this m (wrap_int (wrap_int (num_steps - MIN_DIFF_N) - 1))
             n_start z_turnings_count;
         level = adaptive_level this
     in (this\<lparr> image_levels := (image_levels this)(level :=
                  (image_levels this level)((image_offset_z_turnings this, m) :=
                     double_of_int z_turnings_count')) \<rparr>,
         n_start', z_turnings_count'))"

text \<open>
  The steps at which the body of the loop runs, in the order of the scan, each with the
  outcome of its test. The sequence does not depend on \<^verbatim>\<open>n_start\<close> or on the count.
\<close>

function scan_trace :: "fp_ops \<Rightarrow> RadiationIntegrator \<Rightarrow> int \<Rightarrow> int \<Rightarrow> (int \<times> bool) list" where
  "scan_trace fp this m n =
    (if n \<ge> MIN_DIFF_N then
       (n, turning_at fp this m n) #
         scan_trace fp this m
           (wrap_int ((if turning_at fp this m n then wrap_int (n - MIN_DIFF_N) else n) - 1))
     else [])"
  by pat_completeness auto
termination
proof (relation "measure (\<lambda>(fp, this, m, n). nat n)", goal_cases)
  case 1
  show ?case by simp
next
  case (2 fp this m n)
  have below: "wrap_int i < 2147483648" for i
    unfolding wrap_int_def using pos_mod_bound [of 4294967296 "i + 2147483648"] by simp
  have same: "wrap_int i = i" if "- 2147483648 \<le> i" "i < 2147483648" for i
    unfolding wrap_int_def using that by (simp add: mod_pos_pos_trivial)
  let ?n1 = "if turning_at fp this m n then wrap_int (n - MIN_DIFF_N) else n"
  from 2 have n: "10 \<le> n"
    by (simp add: MIN_DIFF_N_def)
  have "wrap_int (?n1 - 1) < n"
  proof (cases "n < 2147483648")
    case True
    with n have "?n1 = n \<or> ?n1 = n - 10"
      by (auto simp: same MIN_DIFF_N_def)
    with n True show ?thesis
      by (auto simp: same)
  next
    case False
    with below [of "?n1 - 1"] show ?thesis
      by simp
  qed
  with n show ?case
    by simp
qed

definition tested_steps :: "fp_ops \<Rightarrow> RadiationIntegrator \<Rightarrow> int \<Rightarrow> int \<Rightarrow> int list" where
  "tested_steps fp this m num_steps =
     map fst (scan_trace fp this m (wrap_int (wrap_int (num_steps - MIN_DIFF_N) - 1)))"

definition counted_steps :: "fp_ops \<Rightarrow> RadiationIntegrator \<Rightarrow> int \<Rightarrow> int \<Rightarrow> int list" where
  "counted_steps fp this m num_steps =
     map fst (filter snd
       (scan_trace fp this m (wrap_int (wrap_int (num_steps - MIN_DIFF_N) - 1))))"

declare FindZTurnings_loop.simps [simp del] scan_trace.simps [simp del]

subsection \<open>A concrete integrator\<close>

text \<open>
  An environment and an integrator to run the model on: exact arithmetic, the radial
  coordinate of a black hole without spin, two pixels of two samples each, the second
  pixel flagged.
\<close>

definition example_env :: environment where
  "example_env =
     \<lparr> ops = exact_ops,
       RadialGeodesicCoordinate =
         (\<lambda>x y z. exact_sqrt (lift2 (\<lambda>a b. a + b)
            (lift2 (\<lambda>a b. a + b) (lift2 (\<lambda>a b. a * b) x x) (lift2 (\<lambda>a b. a * b) y y))
            (lift2 (\<lambda>a b. a * b) z z))),
       allocated_j_i = (\<lambda>p. Fin 0),
       allocated_alpha_i = (\<lambda>p. Fin 0) \<rparr>"

definition example_integrator :: RadiationIntegrator where
  "example_integrator =
     \<lparr> model_type = formula, num_threads = 1, bh_m = Fin 1, bh_a = Fin 0,
       checkpoint_sample_save = False, checkpoint_sample_load = False,
       checkpoint_sample_file = [], formula_mass = Fin 1, formula_r0 = Fin 10,
       formula_h = Fin 0, formula_l0 = Fin 1, formula_q = Fin 1,
       formula_nup = Fin 230000000000, formula_cn0 = Fin 3, formula_alpha = Fin 0,
       formula_a = Fin 0, formula_beta = Fin (5 / 2), simulation_coord = sph_ks,
       simulation_m_msun = Fin 0, simulation_rho_cgs = Fin 0, simulation_interp = False,
       simulation_block_interp = False, plasma_mu = Fin 0, plasma_ne_ni = Fin 0,
       plasma_model = ti_te_beta, plasma_rat_low = Fin 0, plasma_rat_high = Fin 0,
       plasma_power_frac = Fin 0, plasma_p = Fin 0, plasma_gamma_min = Fin 0,
       plasma_gamma_max = Fin 0, plasma_kappa_frac = Fin 0, plasma_kappa = Fin 0,
       plasma_w = Fin 0, plasma_thermal_frac = Fin 0, plasma_sigma_max = Fin 0,
       slow_light_on = False, slow_interp = False, slow_chunk_size = 0, slow_t_start = Fin 0,
       slow_dt = Fin 0, fallback_nan = True, fallback_rho = Fin 0, fallback_pgas = Fin 0,
       fallback_kappa = Fin 0, camera_r = Fin 0, camera_resolution = 2, image_light = False,
       image_frequency = Fin 0, image_polarization = False, image_time = False,
       image_length = False, image_lambda = False, image_emission = False, image_tau = False,
       image_lambda_ave = False, image_emission_ave = False, image_tau_int = False,
       render_num_images = 0, render_num_features = (\<lambda>i. 0),
       render_quantities = (\<lambda>p. 0), render_types = (\<lambda>p. fill),
       render_thresh_vals = (\<lambda>p. Fin 0), render_min_vals = (\<lambda>p. Fin 0),
       render_max_vals = (\<lambda>p. Fin 0), render_opacities = (\<lambda>p. Fin 0),
       render_tau_scales = (\<lambda>p. Fin 0), render_x_vals = (\<lambda>p. Fin 0),
       render_y_vals = (\<lambda>p. Fin 0), render_z_vals = (\<lambda>p. Fin 0),
       ray_flat = False, adaptive_max_level = 0, adaptive_block_size = 0,
       adaptive_val_frac = Fin 0, adaptive_val_cut = Fin 0, adaptive_abs_grad_frac = Fin 0,
       adaptive_abs_grad_cut = Fin 0, adaptive_rel_grad_frac = Fin 0,
       adaptive_rel_grad_cut = Fin 0, adaptive_abs_lapl_frac = Fin 0,
       adaptive_abs_lapl_cut = Fin 0, adaptive_rel_lapl_frac = Fin 0,
       adaptive_rel_lapl_cut = Fin 0, first_time = True, momentum_factor = Fin 230000000000,
       camera_num_pix = 2, geodesic_num_steps = 4, sample_flags = (\<lambda>m. m = 1),
       sample_num = (\<lambda>m. 2),
       sample_pos = (\<lambda>(m, n, c). if c = 1 then Fin 6 else if c = 2 then Fin 8 else Fin 0),
       sample_dir = (\<lambda>(m, n, c). if c = 0 then Fin (- 1) else Fin 0),
       j_i = (\<lambda>p. Fin 7), alpha_i = (\<lambda>p. Fin 7), adaptive_level = 0,
       cut_z_turnings = - 1, image_offset_z_turnings = 1,
       sample_pos_levels = (\<lambda>l (m, n, c). Fin (if n mod 24 < 12 then real_of_int (n mod 24)
                                              else 24 - real_of_int (n mod 24))),
       image_levels = (\<lambda>l p. Fin 0) \<rparr>"

text \<open>The same integrator with a NaN for the exponent \<^verbatim>\<open>formula_alpha\<close>.\<close>

definition nan_alpha_integrator :: RadiationIntegrator where
  "nan_alpha_integrator = example_integrator\<lparr> formula_alpha := NaN \<rparr>"

text \<open>
  An input for the simulation model: polarized light at one frequency, half of the
  electrons in a kappa distribution with \<open>kappa = 3.75\<close>, no rendering, no adaptive
  refinement, no checkpoint, no slow light.
\<close>

definition example_input :: InputReader where
  "example_input =
     \<lparr> InputReader.model_type = Some simulation, InputReader.num_threads = Some 1,
       InputReader.simulation_a = Some (Fin (9 / 10)), InputReader.formula_spin = None,
       InputReader.checkpoint_sample_save = Some False,
       InputReader.checkpoint_sample_load = Some False,
       InputReader.checkpoint_sample_file = None, InputReader.formula_mass = None,
       InputReader.formula_r0 = None, InputReader.formula_h = None,
       InputReader.formula_l0 = None, InputReader.formula_q = None,
       InputReader.formula_nup = None, InputReader.formula_cn0 = None,
       InputReader.formula_alpha = None, InputReader.formula_a = None,
       InputReader.formula_beta = None, InputReader.simulation_coord = Some sph_ks,
       InputReader.simulation_m_msun = Some (Fin 1),
       InputReader.simulation_rho_cgs = Some (Fin 1),
       InputReader.simulation_interp = Some False, InputReader.simulation_block_interp = None,
       InputReader.plasma_mu = Some (Fin (1 / 2)), InputReader.plasma_ne_ni = Some (Fin 1),
       InputReader.plasma_model = Some ti_te_beta, InputReader.plasma_rat_low = Some (Fin 1),
       InputReader.plasma_rat_high = Some (Fin 10),
       InputReader.plasma_power_frac = Some (Fin 0), InputReader.plasma_p = None,
       InputReader.plasma_gamma_min = None, InputReader.plasma_gamma_max = None,
       InputReader.plasma_kappa_frac = Some (Fin (1 / 2)),
       InputReader.plasma_kappa = Some (Fin (15 / 4)), InputReader.plasma_w = Some (Fin 1),
       InputReader.plasma_sigma_max = Some (Fin 1), InputReader.slow_light_on = Some False,
       InputReader.slow_interp = None, InputReader.slow_chunk_size = None,
       InputReader.slow_t_start = None, InputReader.slow_dt = None,
       InputReader.fallback_nan = Some True, InputReader.fallback_rho = None,
       InputReader.fallback_pgas = None, InputReader.fallback_kappa = None,
       InputReader.camera_r = Some (Fin 100), InputReader.camera_resolution = Some 64,
       InputReader.image_light = Some True,
       InputReader.image_frequency = Some (Fin 230000000000),
       InputReader.image_polarization = Some True, InputReader.image_time = Some False,
       InputReader.image_length = Some False, InputReader.image_lambda = Some False,
       InputReader.image_emission = Some False, InputReader.image_tau = Some False,
       InputReader.image_lambda_ave = Some False, InputReader.image_emission_ave = Some False,
       InputReader.image_tau_int = Some False, InputReader.render_num_images = Some 0,
       InputReader.render_num_features = (\<lambda>i. None),
       InputReader.render_quantities = (\<lambda>i f. None),
       InputReader.render_types = (\<lambda>i f. None),
       InputReader.render_thresh_vals = (\<lambda>i f. None),
       InputReader.render_min_vals = (\<lambda>i f. None),
       InputReader.render_max_vals = (\<lambda>i f. None),
       InputReader.render_opacities = (\<lambda>i f. None),
       InputReader.render_tau_scales = (\<lambda>i f. None),
       InputReader.render_x_vals = (\<lambda>i f. None),
       InputReader.render_y_vals = (\<lambda>i f. None),
       InputReader.render_z_vals = (\<lambda>i f. None), InputReader.ray_flat = Some False,
       InputReader.adaptive_max_level = Some 0, InputReader.adaptive_block_size = None,
       InputReader.adaptive_val_frac = None, InputReader.adaptive_val_cut = None,
       InputReader.adaptive_abs_grad_frac = None, InputReader.adaptive_abs_grad_cut = None,
       InputReader.adaptive_rel_grad_frac = None, InputReader.adaptive_rel_grad_cut = None,
       InputReader.adaptive_abs_lapl_frac = None, InputReader.adaptive_abs_lapl_cut = None,
       InputReader.adaptive_rel_lapl_frac = None, InputReader.adaptive_rel_lapl_cut = None \<rparr>"

subsection \<open>Properties of statements\<close>

text \<open>
  Three properties of a statement that pass from the parts of a block to the block: it
  leaves an observation \<open>f\<close> of the object unchanged; started with nothing thrown, it
  throws only exceptions in \<open>E\<close>; it keeps an invariant \<open>I\<close>.
\<close>

definition stable :: "(construction \<Rightarrow> 'a) \<Rightarrow> stmt \<Rightarrow> bool" where
  "stable f c = (\<forall>s. f (c s) = f s)"

definition raises_only :: "(exception \<Rightarrow> bool) \<Rightarrow> stmt \<Rightarrow> bool" where
  "raises_only E c = (\<forall>s. thrown s = None \<longrightarrow> (\<forall>e. thrown (c s) = Some e \<longrightarrow> E e))"

definition preserves :: "(construction \<Rightarrow> bool) \<Rightarrow> stmt \<Rightarrow> bool" where
  "preserves I c = (\<forall>s. I s \<longrightarrow> I (c s))"



definition slow_light_input :: InputReader where
  "slow_light_input =
     example_input\<lparr> InputReader.slow_light_on := Some True,
       InputReader.checkpoint_sample_save := Some True,
       InputReader.checkpoint_sample_file := Some ''samples'' \<rparr>"

definition low_kappa_input :: InputReader where
  "low_kappa_input = example_input\<lparr> InputReader.plasma_kappa := Some (Fin 3) \<rparr>"




section \<open>Properties of the driver\<close>

text \<open>
  Claim C1 says that every failure path of \<^verbatim>\<open>main\<close> exits with status 1. The handler
  \<^verbatim>\<open>catch (...)\<close> prints its diagnostic and has no \<^verbatim>\<open>return 1\<close>, unlike the two failure
  paths before it: control falls through to \<^verbatim>\<open>return 0\<close>. With one argument and a reader
  whose constructor throws something other than a \<^verbatim>\<open>ray_trace_exception\<close>, the run
  prints the error line and exits with status 0.
\<close>

theorem C1_catch_all_exits_zero:
  "exit_status (main 2 Throws_other) = 0 \<and>
   stdout (main 2 Throws_other) = ''Error: Could not read input file.'' @ newline"
  by (simp add: main_def)

section \<open>Properties of the formula coefficients\<close>

text \<open>The sample loop reads no coefficient array.\<close>

lemma members_coefficients:
  "bh_m (this\<lparr> j_i := J, alpha_i := A \<rparr>) = bh_m this"
  "bh_a (this\<lparr> j_i := J, alpha_i := A \<rparr>) = bh_a this"
  "formula_r0 (this\<lparr> j_i := J, alpha_i := A \<rparr>) = formula_r0 this"
  "formula_h (this\<lparr> j_i := J, alpha_i := A \<rparr>) = formula_h this"
  "formula_l0 (this\<lparr> j_i := J, alpha_i := A \<rparr>) = formula_l0 this"
  "formula_q (this\<lparr> j_i := J, alpha_i := A \<rparr>) = formula_q this"
  "formula_nup (this\<lparr> j_i := J, alpha_i := A \<rparr>) = formula_nup this"
  "formula_cn0 (this\<lparr> j_i := J, alpha_i := A \<rparr>) = formula_cn0 this"
  "formula_alpha (this\<lparr> j_i := J, alpha_i := A \<rparr>) = formula_alpha this"
  "formula_a (this\<lparr> j_i := J, alpha_i := A \<rparr>) = formula_a this"
  "formula_beta (this\<lparr> j_i := J, alpha_i := A \<rparr>) = formula_beta this"
  "momentum_factor (this\<lparr> j_i := J, alpha_i := A \<rparr>) = momentum_factor this"
  "sample_pos (this\<lparr> j_i := J, alpha_i := A \<rparr>) = sample_pos this"
  "sample_dir (this\<lparr> j_i := J, alpha_i := A \<rparr>) = sample_dir this"
  by simp_all

lemma sample_kinematics_coefficients:
  "sample_kinematics env (this\<lparr> j_i := J, alpha_i := A \<rparr>) m n = sample_kinematics env this m n"
  unfolding sample_kinematics_def
  by (simp only: members_coefficients)

lemma sample_fluid_frame_coefficients:
  "sample_fluid_frame env (this\<lparr> j_i := J, alpha_i := A \<rparr>) m n =
     sample_fluid_frame env this m n"
  unfolding sample_fluid_frame_def
  by (simp only: members_coefficients sample_kinematics_coefficients)

lemma formula_sample_arrays:
  "formula_sample env m n (this\<lparr> j_i := J, alpha_i := A \<rparr>) =
     this\<lparr> j_i := J((m, n) := stored_j env this m n),
            alpha_i := A((m, n) := stored_alpha env this m n) \<rparr>"
  unfolding formula_sample_def Let_def sample_fluid_frame_coefficients
  by simp

lemma nan_sample_arrays:
  "nan_sample m n (this\<lparr> j_i := J, alpha_i := A \<rparr>) =
     this\<lparr> j_i := J((m, n) := quiet_NaN), alpha_i := A((m, n) := quiet_NaN) \<rparr>"
  by (simp add: nan_sample_def)

text \<open>A loop that stores into the row of pixel \<open>m\<close>.\<close>

lemma fold_store_row:
  "fold (\<lambda>n J. J((m, n) := g n)) ns J =
     (\<lambda>p. if fst p = m \<and> snd p \<in> set ns then g (snd p) else J p)"
  by (induction ns arbitrary: J) (auto simp: fun_eq_iff)

lemma fold_formula_sample:
  "fold (formula_sample env m) ns (this\<lparr> j_i := J, alpha_i := A \<rparr>) =
     this\<lparr> j_i := fold (\<lambda>n J. J((m, n) := stored_j env this m n)) ns J,
            alpha_i := fold (\<lambda>n A. A((m, n) := stored_alpha env this m n)) ns A \<rparr>"
  by (induction ns arbitrary: J A) (simp_all add: formula_sample_arrays)

lemma fold_nan_sample:
  "fold (nan_sample m) ns (this\<lparr> j_i := J, alpha_i := A \<rparr>) =
     this\<lparr> j_i := fold (\<lambda>n J. J((m, n) := quiet_NaN)) ns J,
            alpha_i := fold (\<lambda>n A. A((m, n) := quiet_NaN)) ns A \<rparr>"
  by (induction ns arbitrary: J A) (simp_all add: nan_sample_arrays)

text \<open>One pixel: its row is rewritten up to the number of samples, nothing else.\<close>

lemma formula_pixel_arrays:
  "formula_pixel env m (this\<lparr> j_i := J, alpha_i := A \<rparr>) =
     this\<lparr> j_i := (\<lambda>p. if fst p = m \<and> 0 \<le> snd p \<and> snd p < sample_num this m
                         then cell_j env this m (snd p) else J p),
            alpha_i := (\<lambda>p. if fst p = m \<and> 0 \<le> snd p \<and> snd p < sample_num this m
                         then cell_alpha env this m (snd p) else A p) \<rparr>"
proof -
  have rows:
    "(\<lambda>p. if fst p = m \<and> snd p \<in> set [0 .. sample_num this m - 1] then g (snd p) else B p) =
     (\<lambda>p. if fst p = m \<and> 0 \<le> snd p \<and> snd p < sample_num this m then g (snd p) else B p)"
    for g :: "int \<Rightarrow> double" and B
    by (rule ext) auto
  have none: "sample_num this m \<le> 0 \<Longrightarrow>
      (\<lambda>p. if fst p = m \<and> 0 \<le> snd p \<and> snd p < sample_num this m then g (snd p) else B p) = B"
    for g :: "int \<Rightarrow> double" and B
    by (rule ext) auto
  show ?thesis
  proof (cases "sample_num this m \<le> 0")
    case True
    then show ?thesis by (simp add: formula_pixel_def Let_def none)
  next
    case False
    show ?thesis
    proof (cases "fallback_nan this \<and> sample_flags this m")
      case True
      then have cells:
        "cell_j env this m = (\<lambda>n. quiet_NaN)" "cell_alpha env this m = (\<lambda>n. quiet_NaN)"
        by (simp_all add: cell_j_def cell_alpha_def fun_eq_iff)
      from True False show ?thesis
        unfolding cells
        by (simp add: formula_pixel_def Let_def fold_nan_sample fold_store_row rows)
    next
      case unflagged: False
      then have cells:
        "cell_j env this m = stored_j env this m"
        "cell_alpha env this m = stored_alpha env this m"
        by (auto simp add: cell_j_def cell_alpha_def fun_eq_iff)
      have "formula_pixel env m (this\<lparr> j_i := J, alpha_i := A \<rparr>) =
            fold (formula_sample env m) [0 .. sample_num this m - 1]
              (this\<lparr> j_i := J, alpha_i := A \<rparr>)"
        using unflagged False by (auto simp add: formula_pixel_def Let_def)
      then show ?thesis
        unfolding cells
        by (simp add: fold_formula_sample fold_store_row rows)
    qed
  qed
qed

lemma fold_formula_pixel:
  "fold (formula_pixel env) ms (this\<lparr> j_i := J, alpha_i := A \<rparr>) =
     this\<lparr> j_i := (\<lambda>p. if fst p \<in> set ms \<and> 0 \<le> snd p \<and> snd p < sample_num this (fst p)
                         then cell_j env this (fst p) (snd p) else J p),
            alpha_i := (\<lambda>p. if fst p \<in> set ms \<and> 0 \<le> snd p \<and> snd p < sample_num this (fst p)
                         then cell_alpha env this (fst p) (snd p) else A p) \<rparr>"
proof (induction ms arbitrary: J A)
  case Nil
  show ?case by simp
next
  case (Cons m ms)
  have merge:
    "(\<lambda>p. if fst p \<in> set ms \<and> 0 \<le> snd p \<and> snd p < sample_num this (fst p)
           then g (fst p) (snd p)
           else (if fst p = m \<and> 0 \<le> snd p \<and> snd p < sample_num this m
                 then g m (snd p) else B p)) =
     (\<lambda>p. if fst p \<in> set (m # ms) \<and> 0 \<le> snd p \<and> snd p < sample_num this (fst p)
           then g (fst p) (snd p) else B p)"
    for g :: "int \<Rightarrow> int \<Rightarrow> double" and B
    by (rule ext) auto
  show ?case
    by (simp only: fold_simps o_apply formula_pixel_arrays Cons.IH merge)
qed

text \<open>The whole call, cell by cell.\<close>

lemma CalculateFormulaCoefficients_arrays:
  "CalculateFormulaCoefficients env this =
     this\<lparr> j_i := (\<lambda>p. if 0 \<le> fst p \<and> fst p < camera_num_pix this \<and>
                            0 \<le> snd p \<and> snd p < sample_num this (fst p)
                         then cell_j env this (fst p) (snd p)
                         else (if first_time this then allocated_j_i env else j_i this) p),
            alpha_i := (\<lambda>p. if 0 \<le> fst p \<and> fst p < camera_num_pix this \<and>
                            0 \<le> snd p \<and> snd p < sample_num this (fst p)
                         then cell_alpha env this (fst p) (snd p)
                         else (if first_time this then allocated_alpha_i env
                               else alpha_i this) p) \<rparr>"
proof -
  have pixels:
    "(\<lambda>p. if fst p \<in> set [0 .. camera_num_pix this - 1] \<and> 0 \<le> snd p \<and>
              snd p < sample_num this (fst p)
           then g (fst p) (snd p) else B p) =
     (\<lambda>p. if 0 \<le> fst p \<and> fst p < camera_num_pix this \<and> 0 \<le> snd p \<and>
              snd p < sample_num this (fst p)
           then g (fst p) (snd p) else B p)"
    for g :: "int \<Rightarrow> int \<Rightarrow> double" and B
    by (rule ext) auto
  have start:
    "(if first_time this
      then this\<lparr> j_i := allocated_j_i env, alpha_i := allocated_alpha_i env \<rparr>
      else this) =
     this\<lparr> j_i := (if first_time this then allocated_j_i env else j_i this),
            alpha_i := (if first_time this then allocated_alpha_i env else alpha_i this) \<rparr>"
    by simp
  show ?thesis
    unfolding CalculateFormulaCoefficients_def Let_def start
    by (simp add: fold_formula_pixel pixels)
qed

text \<open>
  Claim C2. A pixel \<open>m\<close> of the camera has \<open>sample_num m > 0\<close> samples, its ray is flagged
  and \<open>fallback_nan\<close> is set. After the call, the cells \<open>(m, n)\<close> of \<open>j_i\<close> and \<open>alpha_i\<close>
  hold NaN for every step \<open>n\<close> below \<open>sample_num m\<close>; every other cell of the pixel's row
  holds what it held when the pixel loop started (the freshly allocated content on the
  first call, the old content otherwise). The row is the same whatever the formula
  would compute: no coefficient is computed for the pixel.
\<close>

theorem C2_flagged_pixel_set_to_NaN:
  assumes "0 \<le> m" and "m < camera_num_pix this" and "0 < sample_num this m"
    and "fallback_nan this" and "sample_flags this m"
  shows "j_i (CalculateFormulaCoefficients env this) (m, n) =
           (if 0 \<le> n \<and> n < sample_num this m then quiet_NaN
            else (if first_time this then allocated_j_i env else j_i this) (m, n)) \<and>
         alpha_i (CalculateFormulaCoefficients env this) (m, n) =
           (if 0 \<le> n \<and> n < sample_num this m then quiet_NaN
            else (if first_time this then allocated_alpha_i env else alpha_i this) (m, n))"
  using assms by (simp add: CalculateFormulaCoefficients_arrays cell_j_def cell_alpha_def)

theorem C2_flagged_pixel_set_to_NaN_witness:
  "(0::int) \<le> 1 \<and> 1 < camera_num_pix example_integrator \<and>
   0 < sample_num example_integrator 1 \<and> fallback_nan example_integrator \<and>
   sample_flags example_integrator 1 \<and>
   j_i (CalculateFormulaCoefficients example_env example_integrator) (1, 0) = quiet_NaN \<and>
   alpha_i (CalculateFormulaCoefficients example_env example_integrator) (1, 1) = quiet_NaN \<and>
   j_i (CalculateFormulaCoefficients example_env example_integrator) (1, 2) = Fin 0"
  using C2_flagged_pixel_set_to_NaN [of 1 example_integrator example_env 0]
    C2_flagged_pixel_set_to_NaN [of 1 example_integrator example_env 1]
    C2_flagged_pixel_set_to_NaN [of 1 example_integrator example_env 2]
  by (simp add: example_integrator_def example_env_def)

text \<open>
  Claim C3. For a sample \<open>(m, n)\<close> of a pixel that is not set to NaN (the ray is not
  flagged, or \<open>fallback_nan\<close> is off), the stored emission coefficient is the fluid-frame
  emissivity \<open>j_nu_fluid_cgs\<close> divided by the square of the fluid-frame frequency, the
  stored absorption coefficient is the fluid-frame absorptivity \<open>alpha_nu_fluid_cgs\<close>
  times that frequency, and the frequency is \<open>-(u0 k_0 + u1 k_1 + u2 k_2 + u3 k_3)\<close> times
  \<open>momentum_factor\<close>. All operations are those of the double arithmetic.
\<close>

theorem C3_stored_coefficients:
  assumes "0 \<le> m" and "m < camera_num_pix this" and "0 \<le> n" and "n < sample_num this m"
    and "\<not> (fallback_nan this \<and> sample_flags this m)"
  shows "(let f = sample_fluid_frame env this m n; g = sample_kinematics env this m n;
              mul = fmul (ops env); add = fadd (ops env)
          in j_i (CalculateFormulaCoefficients env this) (m, n) =
               fdiv (ops env) (j_nu_fluid_cgs f) (mul (nu_fluid_cgs f) (nu_fluid_cgs f)) \<and>
             alpha_i (CalculateFormulaCoefficients env this) (m, n) =
               mul (alpha_nu_fluid_cgs f) (nu_fluid_cgs f) \<and>
             nu_fluid_cgs f =
               mul (dneg (add (add (add (mul (u0 g) (k_0 g)) (mul (u1 g) (k_1 g)))
                                   (mul (u2 g) (k_2 g)))
                              (mul (u3 g) (k_3 g))))
                   (momentum_factor this))"
proof -
  have "nu_fluid_cgs (sample_fluid_frame env this m n) =
        fmul (ops env)
          (dneg (fadd (ops env) (fadd (ops env) (fadd (ops env)
             (fmul (ops env) (u0 (sample_kinematics env this m n))
                (k_0 (sample_kinematics env this m n)))
             (fmul (ops env) (u1 (sample_kinematics env this m n))
                (k_1 (sample_kinematics env this m n))))
             (fmul (ops env) (u2 (sample_kinematics env this m n))
                (k_2 (sample_kinematics env this m n))))
             (fmul (ops env) (u3 (sample_kinematics env this m n))
                (k_3 (sample_kinematics env this m n)))))
          (momentum_factor this)"
    by (simp add: sample_fluid_frame_def Let_def)
  moreover have "j_i (CalculateFormulaCoefficients env this) (m, n) = cell_j env this m n"
    "alpha_i (CalculateFormulaCoefficients env this) (m, n) = cell_alpha env this m n"
    using assms by (simp_all add: CalculateFormulaCoefficients_arrays)
  moreover have "cell_j env this m n = stored_j env this m n"
    "cell_alpha env this m n = stored_alpha env this m n"
    using assms(5) by (auto simp add: cell_j_def cell_alpha_def)
  ultimately show ?thesis
    unfolding Let_def by (intro conjI) simp_all
qed

theorem C3_stored_coefficients_witness:
  "(0::int) \<le> 0 \<and> 0 < camera_num_pix example_integrator \<and> (0::int) \<le> 1 \<and>
   1 < sample_num example_integrator 0 \<and>
   \<not> (fallback_nan example_integrator \<and> sample_flags example_integrator 0) \<and>
   j_i (CalculateFormulaCoefficients example_env example_integrator) (0, 1) =
     fdiv exact_ops (j_nu_fluid_cgs (sample_fluid_frame example_env example_integrator 0 1))
       (fmul exact_ops (nu_fluid_cgs (sample_fluid_frame example_env example_integrator 0 1))
          (nu_fluid_cgs (sample_fluid_frame example_env example_integrator 0 1))) \<and>
   alpha_i (CalculateFormulaCoefficients example_env example_integrator) (0, 1) =
     fmul exact_ops (alpha_nu_fluid_cgs (sample_fluid_frame example_env example_integrator 0 1))
       (nu_fluid_cgs (sample_fluid_frame example_env example_integrator 0 1))"
proof -
  have h: "\<not> (fallback_nan example_integrator \<and> sample_flags example_integrator 0)"
    "(0::int) \<le> 0" "0 < camera_num_pix example_integrator" "(0::int) \<le> 1"
    "1 < sample_num example_integrator 0"
    by (simp_all add: example_integrator_def)
  have e: "ops example_env = exact_ops"
    by (simp add: example_env_def)
  from h C3_stored_coefficients [OF h(2) h(3) h(4) h(5) h(1), of example_env]
  show ?thesis
    by (simp only: Let_def e simp_thms)
qed

subsection \<open>The sign of the coefficients\<close>

lemmas compare_defs = dlt_def dgt_def deq_def dne_def dle_def dge_def

lemma zero_tests:
  "dge (Fin a) (Fin 0) = (0 \<le> a)" "dge NaN (Fin 0) = False" "dge NInf (Fin 0) = False"
  "dge NZero (Fin 0) = True" "dge PInf (Fin 0) = True"
  "deq (Fin a) (Fin 0) = (a = 0)" "deq NaN (Fin 0) = False" "deq NInf (Fin 0) = False"
  "deq NZero (Fin 0) = True" "deq PInf (Fin 0) = False"
  "dgt (Fin a) (Fin 0) = (0 < a)" "dgt NaN (Fin 0) = False" "dgt NInf (Fin 0) = False"
  "dgt NZero (Fin 0) = False" "dgt PInf (Fin 0) = True"
  "dlt (Fin a) (Fin 0) = (a < 0)"
  by (auto simp add: compare_defs)

lemma positive_not_negative: "positive_or_nan x \<Longrightarrow> not_negative x"
  by (auto simp add: positive_or_nan_def not_negative_def)

lemma dge_not_negative: "dge x (Fin 0) \<Longrightarrow> not_negative x"
  by (simp add: not_negative_def)

lemma dgt_positive: "dgt x (Fin 0) \<Longrightarrow> positive_or_nan x"
  by (cases x) (simp_all add: positive_or_nan_def zero_tests)

text \<open>The exact arithmetic has the signs of IEEE arithmetic.\<close>

lemma exact_ops_signs: "ieee_signs exact_ops"
proof -
  have e: "positive_or_nan (lift1 exp x)" for x
    by (cases x) (simp_all add: positive_or_nan_def zero_tests)
  have p: "positive_or_nan (exact_pow x y)" for x y
    by (cases x; cases y) (simp_all add: positive_or_nan_def exact_pow_def zero_tests)
  have m: "not_negative x \<Longrightarrow> not_negative y \<Longrightarrow> not_negative (lift2 (\<lambda>x y. x * y) x y)"
    for x y
    by (cases x; cases y) (simp_all add: not_negative_def zero_tests)
  have m': "positive_or_nan x \<Longrightarrow> positive_or_nan y \<Longrightarrow>
      positive_or_nan (lift2 (\<lambda>x y. x * y) x y)" for x y
    by (cases x; cases y) (simp_all add: positive_or_nan_def zero_tests)
  have d: "not_negative x \<Longrightarrow> positive_or_nan y \<Longrightarrow> not_negative (exact_div x y)" for x y
    by (cases x; cases y)
      (auto simp add: not_negative_def positive_or_nan_def exact_div_def zero_tests)
  have d': "positive_or_nan x \<Longrightarrow> positive_or_nan y \<Longrightarrow> positive_or_nan (exact_div x y)"
    for x y
    by (cases x; cases y) (auto simp add: positive_or_nan_def exact_div_def zero_tests)
  show ?thesis
    unfolding ieee_signs_def by (simp add: exact_ops_def e p m m' d d')
qed

lemma signs_exp: "ieee_signs fp \<Longrightarrow> positive_or_nan (fexp fp x)"
  by (simp add: ieee_signs_def)

lemma signs_pow: "ieee_signs fp \<Longrightarrow> positive_or_nan x \<Longrightarrow> positive_or_nan (fpow fp x y)"
  by (simp add: ieee_signs_def)

lemma signs_mul:
  "ieee_signs fp \<Longrightarrow> not_negative x \<Longrightarrow> not_negative y \<Longrightarrow> not_negative (fmul fp x y)"
  by (simp add: ieee_signs_def)

lemma signs_mul_positive:
  "ieee_signs fp \<Longrightarrow> positive_or_nan x \<Longrightarrow> positive_or_nan y \<Longrightarrow>
     positive_or_nan (fmul fp x y)"
  by (simp add: ieee_signs_def)

lemma signs_div:
  "ieee_signs fp \<Longrightarrow> not_negative x \<Longrightarrow> positive_or_nan y \<Longrightarrow> not_negative (fdiv fp x y)"
  by (simp add: ieee_signs_def)

lemma signs_div_positive:
  "ieee_signs fp \<Longrightarrow> positive_or_nan x \<Longrightarrow> positive_or_nan y \<Longrightarrow>
     positive_or_nan (fdiv fp x y)"
  by (simp add: ieee_signs_def)

text \<open>
  The number density is a value of \<^verbatim>\<open>exp\<close>: the last local of the first part of the loop
  body, whatever the locals before it are.
\<close>

lemma let_exp: "Q (f (fexp fp t)) \<Longrightarrow> Q (Let (fexp fp t) f)"
  by simp

lemma let_any: "(\<And>x. Q (f x)) \<Longrightarrow> Q (Let a f)"
  by simp

lemma density_exp: "\<exists>x. n_n0_fluid (sample_kinematics env this m n) = fexp (ops env) x"
  unfolding sample_kinematics_def
  apply (rule let_exp [where Q = "\<lambda>k. \<exists>x. n_n0_fluid k = fexp (ops env) x"]
      let_any [where Q = "\<lambda>k. \<exists>x. n_n0_fluid k = fexp (ops env) x"])+
  apply simp
  apply (rule exI, rule refl)
  done

lemma fluid_frame_coefficients:
  "j_nu_fluid_cgs (sample_fluid_frame env this m n) =
     fmul (ops env)
       (fmul (ops env) (formula_cn0 this) (n_n0_fluid (sample_kinematics env this m n)))
       (fpow (ops env)
          (fdiv (ops env) (nu_fluid_cgs (sample_fluid_frame env this m n)) (formula_nup this))
          (dneg (formula_alpha this)))"
  "alpha_nu_fluid_cgs (sample_fluid_frame env this m n) =
     fmul (ops env)
       (fmul (ops env) (fmul (ops env) (formula_a this) (formula_cn0 this))
          (n_n0_fluid (sample_kinematics env this m n)))
       (fpow (ops env)
          (fdiv (ops env) (nu_fluid_cgs (sample_fluid_frame env this m n)) (formula_nup this))
          (fsub (ops env) (dneg (formula_beta this)) (formula_alpha this)))"
  by (simp_all add: sample_fluid_frame_def Let_def)

lemma stored_not_negative:
  assumes signs: "ieee_signs (ops env)"
    and cn0: "dge (formula_cn0 this) (Fin 0)"
    and a: "dge (formula_a this) (Fin 0)"
    and nup: "dgt (formula_nup this) (Fin 0)"
    and nu: "dgt (nu_fluid_cgs (sample_fluid_frame env this m n)) (Fin 0)"
  shows "not_negative (stored_j env this m n)" and "not_negative (stored_alpha env this m n)"
proof -
  let ?nu = "nu_fluid_cgs (sample_fluid_frame env this m n)"
  let ?dens = "n_n0_fluid (sample_kinematics env this m n)"
  from density_exp obtain x where "?dens = fexp (ops env) x"
    by blast
  with signs have dens: "not_negative ?dens"
    by (simp add: signs_exp positive_not_negative)
  from nu have nu_positive: "positive_or_nan ?nu"
    by (rule dgt_positive)
  from signs nu_positive nup have ratio:
    "positive_or_nan (fdiv (ops env) ?nu (formula_nup this))"
    by (simp add: signs_div_positive dgt_positive)
  from signs ratio have power:
    "not_negative (fpow (ops env) (fdiv (ops env) ?nu (formula_nup this)) y)" for y
    by (simp add: signs_pow positive_not_negative)
  note mul = signs_mul [OF signs]
  have j: "not_negative (j_nu_fluid_cgs (sample_fluid_frame env this m n))"
    unfolding fluid_frame_coefficients
    by (rule mul [OF mul [OF dge_not_negative [OF cn0] dens] power])
  have alpha: "not_negative (alpha_nu_fluid_cgs (sample_fluid_frame env this m n))"
    unfolding fluid_frame_coefficients
    by (rule mul [OF mul [OF mul [OF dge_not_negative [OF a] dge_not_negative [OF cn0]] dens]
          power])
  show "not_negative (stored_j env this m n)"
    by (rule signs_div [OF signs j signs_mul_positive [OF signs nu_positive nu_positive]])
  show "not_negative (stored_alpha env this m n)"
    by (rule mul [OF alpha positive_not_negative [OF nu_positive]])
qed

text \<open>The frequency at the samples of the first pixel of the example.\<close>

lemma sqrt_100: "sqrt 100 = 10"
  by (rule real_sqrt_unique) simp_all

lemmas exact_defs = exact_ops_def exact_div_def exact_sqrt_def exact_atan2_def exact_pow_def

lemma nu_example:
  "nu_fluid_cgs (sample_fluid_frame example_env example_integrator 0 1) =
     Fin (287500000000 / sqrt (205 / 484))"
  "nu_fluid_cgs (sample_fluid_frame example_env nan_alpha_integrator 0 1) =
     Fin (287500000000 / sqrt (205 / 484))"
  by (simp_all add: sample_fluid_frame_def sample_kinematics_def Let_def example_env_def
      nan_alpha_integrator_def example_integrator_def exact_defs sqrt_100 zero_tests)

lemma NaN_operand:
  "exact_pow x NaN = NaN" "lift2 f x NaN = NaN" "lift2 f NaN y = NaN" "exact_div NaN y = NaN"
  by (cases x; cases y; simp add: exact_pow_def exact_div_def)+

text \<open>
  Claim C4, amended. The arithmetic has the signs of IEEE arithmetic. For a sample
  \<open>(m, n)\<close> of a pixel that is not set to NaN, with \<open>formula_cn0 >= 0\<close>, \<open>formula_a >= 0\<close>,
  \<open>formula_nup > 0\<close> and a fluid-frame frequency above zero (finite or not), each of the
  two written coefficients is a NaN or is \<open>>= 0\<close>: it is never negative. That it is
  \<open>>= 0\<close>, as the claim says, does not follow: the hypotheses do not keep a NaN out.
\<close>

theorem C4_coefficients_not_negative:
  assumes "ieee_signs (ops env)"
    and "0 \<le> m" and "m < camera_num_pix this" and "0 \<le> n" and "n < sample_num this m"
    and "\<not> (fallback_nan this \<and> sample_flags this m)"
    and "dge (formula_cn0 this) (Fin 0)"
    and "dge (formula_a this) (Fin 0)"
    and "dgt (formula_nup this) (Fin 0)"
    and "dgt (nu_fluid_cgs (sample_fluid_frame env this m n)) (Fin 0)"
  shows "(isnan (j_i (CalculateFormulaCoefficients env this) (m, n)) \<or>
          dge (j_i (CalculateFormulaCoefficients env this) (m, n)) (Fin 0)) \<and>
         (isnan (alpha_i (CalculateFormulaCoefficients env this) (m, n)) \<or>
          dge (alpha_i (CalculateFormulaCoefficients env this) (m, n)) (Fin 0))"
proof -
  have "j_i (CalculateFormulaCoefficients env this) (m, n) = cell_j env this m n"
    "alpha_i (CalculateFormulaCoefficients env this) (m, n) = cell_alpha env this m n"
    using assms(2-5) by (simp_all add: CalculateFormulaCoefficients_arrays)
  moreover have "cell_j env this m n = stored_j env this m n"
    "cell_alpha env this m n = stored_alpha env this m n"
    using assms(6) by (auto simp add: cell_j_def cell_alpha_def)
  moreover note stored_not_negative [OF assms(1) assms(7-10)]
  ultimately show ?thesis
    by (simp add: not_negative_def)
qed

theorem C4_coefficients_not_negative_witness:
  "ieee_signs (ops example_env) \<and>
   (0::int) \<le> 0 \<and> 0 < camera_num_pix example_integrator \<and> (0::int) \<le> 1 \<and>
   1 < sample_num example_integrator 0 \<and>
   \<not> (fallback_nan example_integrator \<and> sample_flags example_integrator 0) \<and>
   dge (formula_cn0 example_integrator) (Fin 0) \<and>
   dge (formula_a example_integrator) (Fin 0) \<and>
   dgt (formula_nup example_integrator) (Fin 0) \<and>
   dgt (nu_fluid_cgs (sample_fluid_frame example_env example_integrator 0 1)) (Fin 0) \<and>
   (isnan (j_i (CalculateFormulaCoefficients example_env example_integrator) (0, 1)) \<or>
    dge (j_i (CalculateFormulaCoefficients example_env example_integrator) (0, 1)) (Fin 0)) \<and>
   (isnan (alpha_i (CalculateFormulaCoefficients example_env example_integrator) (0, 1)) \<or>
    dge (alpha_i (CalculateFormulaCoefficients example_env example_integrator) (0, 1)) (Fin 0))"
proof -
  have signs: "ieee_signs (ops example_env)"
    by (simp add: example_env_def exact_ops_signs)
  have h: "(0::int) \<le> 0" "0 < camera_num_pix example_integrator" "(0::int) \<le> 1"
    "1 < sample_num example_integrator 0"
    "\<not> (fallback_nan example_integrator \<and> sample_flags example_integrator 0)"
    "dge (formula_cn0 example_integrator) (Fin 0)"
    "dge (formula_a example_integrator) (Fin 0)"
    "dgt (formula_nup example_integrator) (Fin 0)"
    by (simp_all add: example_integrator_def zero_tests)
  have nu: "dgt (nu_fluid_cgs (sample_fluid_frame example_env example_integrator 0 1)) (Fin 0)"
    by (simp add: nu_example zero_tests)
  from signs h nu C4_coefficients_not_negative [OF signs h nu]
  show ?thesis
    by (simp only: simp_thms)
qed

text \<open>
  The claim as it is written fails when the input holds a NaN for \<^verbatim>\<open>formula_alpha\<close>: all
  its hypotheses hold, the frequency is positive and finite, and both coefficients written
  for the sample are NaN, for which \<^verbatim>\<open>>= 0\<close> is false.
\<close>

theorem C4_nan_coefficients_counterexample:
  "(0::int) \<le> 0 \<and> 0 < camera_num_pix nan_alpha_integrator \<and> (0::int) \<le> 1 \<and>
   1 < sample_num nan_alpha_integrator 0 \<and>
   \<not> (fallback_nan nan_alpha_integrator \<and> sample_flags nan_alpha_integrator 0) \<and>
   dge (formula_cn0 nan_alpha_integrator) (Fin 0) \<and>
   dge (formula_a nan_alpha_integrator) (Fin 0) \<and>
   dgt (formula_nup nan_alpha_integrator) (Fin 0) \<and>
   nu_fluid_cgs (sample_fluid_frame example_env nan_alpha_integrator 0 1) =
     Fin (287500000000 / sqrt (205 / 484)) \<and>
   dgt (Fin (287500000000 / sqrt (205 / 484))) (Fin 0) \<and>
   j_i (CalculateFormulaCoefficients example_env nan_alpha_integrator) (0, 1) = NaN \<and>
   alpha_i (CalculateFormulaCoefficients example_env nan_alpha_integrator) (0, 1) = NaN \<and>
   \<not> dge NaN (Fin 0)"
proof -
  have h: "(0::int) \<le> 0" "0 < camera_num_pix nan_alpha_integrator" "(0::int) \<le> 1"
    "1 < sample_num nan_alpha_integrator 0"
    "\<not> (fallback_nan nan_alpha_integrator \<and> sample_flags nan_alpha_integrator 0)"
    "dge (formula_cn0 nan_alpha_integrator) (Fin 0)"
    "dge (formula_a nan_alpha_integrator) (Fin 0)"
    "dgt (formula_nup nan_alpha_integrator) (Fin 0)"
    "formula_alpha nan_alpha_integrator = NaN"
    by (simp_all add: nan_alpha_integrator_def example_integrator_def zero_tests)
  have e: "ops example_env = exact_ops"
    by (simp add: example_env_def)
  have "j_nu_fluid_cgs (sample_fluid_frame example_env nan_alpha_integrator 0 1) = NaN"
    "alpha_nu_fluid_cgs (sample_fluid_frame example_env nan_alpha_integrator 0 1) = NaN"
    unfolding fluid_frame_coefficients e h(9)
    by (simp_all add: exact_ops_def NaN_operand)
  then have "stored_j example_env nan_alpha_integrator 0 1 = NaN"
    "stored_alpha example_env nan_alpha_integrator 0 1 = NaN"
    by (simp_all add: e exact_ops_def NaN_operand)
  then have "cell_j example_env nan_alpha_integrator 0 1 = NaN"
    "cell_alpha example_env nan_alpha_integrator 0 1 = NaN"
    using h(5) by (auto simp add: cell_j_def cell_alpha_def)
  then have "j_i (CalculateFormulaCoefficients example_env nan_alpha_integrator) (0, 1) = NaN"
    "alpha_i (CalculateFormulaCoefficients example_env nan_alpha_integrator) (0, 1) = NaN"
    using h(1-4) by (simp_all add: CalculateFormulaCoefficients_arrays)
  with h show ?thesis
    by (simp add: nu_example zero_tests)
qed

section \<open>Properties of the scan for turnings\<close>

text \<open>The arithmetic of \<^verbatim>\<open>int\<close>.\<close>

lemma wrap_int_same: "is_int i \<Longrightarrow> wrap_int i = i"
  by (simp add: wrap_int_def is_int_def mod_pos_pos_trivial)

lemma is_int_wrap_int: "is_int (wrap_int i)"
  unfolding wrap_int_def is_int_def
  using pos_mod_bound [of 4294967296 "i + 2147483648"]
    pos_mod_sign [of 4294967296 "i + 2147483648"]
  by simp

lemma wrap_int_add: "wrap_int (wrap_int a + b) = wrap_int (a + b)"
proof -
  have "((a + 2147483648) mod 4294967296 + b) mod 4294967296 =
        (a + 2147483648 + b) mod 4294967296"
    by (rule mod_add_left_eq)
  then show ?thesis
    by (simp add: wrap_int_def algebra_simps)
qed

text \<open>For a step in the range of \<^verbatim>\<open>int\<close> nothing wraps in the control of the loop.\<close>

lemma scan_trace_step:
  assumes "n \<le> 2147483647"
  shows "scan_trace fp this m n =
    (if n \<ge> MIN_DIFF_N then
       (n, turning_at fp this m n) #
         scan_trace fp this m ((if turning_at fp this m n then n - MIN_DIFF_N else n) - 1)
     else [])"
proof (cases "n \<ge> MIN_DIFF_N")
  case True
  with assms have "wrap_int (n - MIN_DIFF_N) = n - MIN_DIFF_N" "wrap_int (n - 1) = n - 1"
    "wrap_int (n - MIN_DIFF_N - 1) = n - MIN_DIFF_N - 1"
    by (simp_all add: wrap_int_same is_int_def MIN_DIFF_N_def)
  with True show ?thesis
    by (subst scan_trace.simps) simp
next
  case False
  then show ?thesis
    by (subst scan_trace.simps) simp
qed

lemma next_step:
  assumes "MIN_DIFF_N \<le> n" and "n \<le> 2147483647"
  shows "wrap_int ((if t then wrap_int (n - MIN_DIFF_N) else n) - 1) =
           (if t then n - MIN_DIFF_N else n) - 1"
    and "(if t then n - MIN_DIFF_N else n) - 1 \<le> 2147483647"
  using assms by (simp_all add: wrap_int_same is_int_def MIN_DIFF_N_def)

lemma scan_trace_bounds:
  "n \<le> 2147483647 \<Longrightarrow> (k, b) \<in> set (scan_trace fp this m n) \<Longrightarrow> MIN_DIFF_N \<le> k \<and> k \<le> n"
proof (induction fp this m n rule: scan_trace.induct)
  case (1 fp this m n)
  show ?case
  proof (cases "n \<ge> MIN_DIFF_N")
    case True
    let ?next = "(if turning_at fp this m n then n - MIN_DIFF_N else n) - 1"
    note step = next_step [OF True "1.prems"(1), of "turning_at fp this m n"]
    from scan_trace_step [OF "1.prems"(1), of fp this m] True
    have unfold: "scan_trace fp this m n =
        (n, turning_at fp this m n) # scan_trace fp this m ?next"
      by simp
    from "1.prems"(2) have "(k, b) = (n, turning_at fp this m n) \<or>
        (k, b) \<in> set (scan_trace fp this m ?next)"
      unfolding unfold by simp
    then show ?thesis
    proof
      assume "(k, b) = (n, turning_at fp this m n)"
      with True show ?thesis by simp
    next
      assume tail: "(k, b) \<in> set (scan_trace fp this m ?next)"
      from "1.IH" [OF True, unfolded step(1), OF step(2) tail] show ?thesis
        by (auto simp: MIN_DIFF_N_def split: if_splits)
    qed
  next
    case False
    with "1.prems" show ?thesis
      by (subst (asm) scan_trace.simps) simp
  qed
qed

lemma scan_trace_skips:
  "n \<le> 2147483647 \<Longrightarrow> (k, True) \<in> set (scan_trace fp this m n) \<Longrightarrow>
     (k', b) \<in> set (scan_trace fp this m n) \<Longrightarrow> k' < k - MIN_DIFF_N \<or> k \<le> k'"
proof (induction fp this m n rule: scan_trace.induct)
  case (1 fp this m n)
  let ?next = "(if turning_at fp this m n then n - MIN_DIFF_N else n) - 1"
  show ?case
  proof (cases "n \<ge> MIN_DIFF_N")
    case True
    note step = next_step [OF True "1.prems"(1), of "turning_at fp this m n"]
    from scan_trace_step [OF "1.prems"(1), of fp this m] True
    have unfold: "scan_trace fp this m n =
        (n, turning_at fp this m n) # scan_trace fp this m ?next"
      by simp
    from "1.prems"(2) have k: "(k = n \<and> turning_at fp this m n) \<or>
        (k, True) \<in> set (scan_trace fp this m ?next)"
      unfolding unfold by auto
    from "1.prems"(3) have k': "k' = n \<or> (k', b) \<in> set (scan_trace fp this m ?next)"
      unfolding unfold by auto
    from k show ?thesis
    proof
      assume head: "k = n \<and> turning_at fp this m n"
      from k' show ?thesis
      proof
        assume "k' = n" with head show ?thesis by simp
      next
        assume "(k', b) \<in> set (scan_trace fp this m ?next)"
        from scan_trace_bounds [OF step(2) this] head show ?thesis by simp
      qed
    next
      assume tail: "(k, True) \<in> set (scan_trace fp this m ?next)"
      from k' show ?thesis
      proof
        assume "k' = n"
        with scan_trace_bounds [OF step(2) tail] show ?thesis
          by (auto simp: MIN_DIFF_N_def split: if_splits)
      next
        assume "(k', b) \<in> set (scan_trace fp this m ?next)"
        from "1.IH" [OF True, unfolded step(1), OF step(2) tail this] show ?thesis .
      qed
    qed
  next
    case False
    with "1.prems" show ?thesis
      by (subst (asm) scan_trace.simps) simp
  qed
qed

text \<open>The count wraps around like every \<^verbatim>\<open>int\<close>.\<close>

lemma FindZTurnings_loop_count:
  "is_int c \<Longrightarrow> snd (FindZTurnings_loop fp this m n n_start c) =
     wrap_int (c + int (length (filter snd (scan_trace fp this m n))))"
proof (induction fp this m n n_start c rule: FindZTurnings_loop.induct)
  case (1 fp this m n n_start c)
  show ?case
  proof (cases "n \<ge> MIN_DIFF_N")
    case True
    let ?c1 = "if turning_at fp this m n then wrap_int (c + 1) else c"
    from "1.prems" have c1: "is_int ?c1"
      by (simp add: is_int_wrap_int)
    have sum: "wrap_int (wrap_int (c + 1) + l) = wrap_int (c + (1 + l))" for l
      unfolding wrap_int_add by (simp add: add.assoc)
    show ?thesis
      apply (subst FindZTurnings_loop.simps)
      apply (subst scan_trace.simps)
      using True "1.IH" [OF True refl refl refl refl c1]
      by (simp add: Let_def sum)
  next
    case False
    with "1.prems" show ?thesis
      by (subst FindZTurnings_loop.simps, subst scan_trace.simps) (simp add: wrap_int_same)
  qed
qed

text \<open>
  Claim C8. The stride \<^verbatim>\<open>MIN_DIFF_N\<close> is the constant 10, whatever the number of steps.
  \<open>num_steps\<close> is an \<^verbatim>\<open>int\<close> from which the start of the scan,
  \<^verbatim>\<open>num_steps - MIN_DIFF_N - 1\<close>, is computed without overflow, and the incoming count is an
  \<^verbatim>\<open>int\<close>. For every ray \<open>m\<close>: a step that is tested lies at least 10 steps from either
  end of the \<open>num_steps\<close> samples; below a step at which a turning is counted, the next 10
  steps are not tested; the returned count is the incoming count plus the number of
  turnings counted, in the arithmetic of \<^verbatim>\<open>int\<close> (the plain sum as long as that is at most
  \<open>2147483647\<close>), and it is what the call stores in the z-turnings channel of the image
  of the current level, at pixel \<open>m\<close>.
\<close>

theorem C8_z_turnings_stride:
  assumes "- 2147483637 \<le> num_steps" and "num_steps \<le> 2147483647"
    and "is_int z_turnings_count"
  shows "MIN_DIFF_N = 10 \<and>
   (\<forall>n \<in> set (tested_steps fp this m num_steps). 10 \<le> n \<and> n + 10 < num_steps) \<and>
   (\<forall>n \<in> set (counted_steps fp this m num_steps).
      \<forall>k. n - 10 \<le> k \<and> k < n \<longrightarrow> k \<notin> set (tested_steps fp this m num_steps)) \<and>
   (case FindZTurnings fp this m num_steps n_start z_turnings_count of
      (this', n_start', count') \<Rightarrow>
        count' =
          wrap_int (z_turnings_count + int (length (counted_steps fp this m num_steps))) \<and>
        (z_turnings_count + int (length (counted_steps fp this m num_steps)) \<le> 2147483647 \<longrightarrow>
           count' = z_turnings_count + int (length (counted_steps fp this m num_steps))) \<and>
        image_levels this' (adaptive_level this) (image_offset_z_turnings this, m) =
          double_of_int count')"
proof (intro conjI)
  from assms(1,2)
  have start: "wrap_int (wrap_int (num_steps - MIN_DIFF_N) - 1) = num_steps - MIN_DIFF_N - 1"
    and range: "num_steps - MIN_DIFF_N - 1 \<le> 2147483647"
    by (simp_all add: wrap_int_same is_int_def MIN_DIFF_N_def)
  show "MIN_DIFF_N = 10"
    by (simp add: MIN_DIFF_N_def)
  show "\<forall>n \<in> set (tested_steps fp this m num_steps). 10 \<le> n \<and> n + 10 < num_steps"
  proof
    fix n
    assume "n \<in> set (tested_steps fp this m num_steps)"
    then obtain b where "(n, b) \<in> set (scan_trace fp this m (num_steps - MIN_DIFF_N - 1))"
      by (auto simp: tested_steps_def start)
    from scan_trace_bounds [OF range this] show "10 \<le> n \<and> n + 10 < num_steps"
      by (simp add: MIN_DIFF_N_def)
  qed
  show "\<forall>n \<in> set (counted_steps fp this m num_steps).
      \<forall>k. n - 10 \<le> k \<and> k < n \<longrightarrow> k \<notin> set (tested_steps fp this m num_steps)"
  proof (intro ballI allI impI notI)
    fix n k
    assume n: "n \<in> set (counted_steps fp this m num_steps)"
      and k: "n - 10 \<le> k \<and> k < n"
      and tested: "k \<in> set (tested_steps fp this m num_steps)"
    from n have "(n, True) \<in> set (scan_trace fp this m (num_steps - MIN_DIFF_N - 1))"
      by (auto simp: counted_steps_def start)
    moreover from tested obtain b
      where "(k, b) \<in> set (scan_trace fp this m (num_steps - MIN_DIFF_N - 1))"
      by (auto simp: tested_steps_def start)
    ultimately have "k < n - MIN_DIFF_N \<or> n \<le> k"
      by (rule scan_trace_skips [OF range])
    with k show False
      by (simp add: MIN_DIFF_N_def)
  qed
  let ?sum = "z_turnings_count + int (length (counted_steps fp this m num_steps))"
  have count: "snd (FindZTurnings_loop fp this m
      (wrap_int (wrap_int (num_steps - MIN_DIFF_N) - 1)) n_start z_turnings_count) =
      wrap_int ?sum"
    using FindZTurnings_loop_count [OF assms(3)] by (simp add: counted_steps_def)
  have plain: "wrap_int ?sum = ?sum" if "?sum \<le> 2147483647"
    using that assms(3) by (intro wrap_int_same) (simp add: is_int_def)
  show "case FindZTurnings fp this m num_steps n_start z_turnings_count of
      (this', n_start', count') \<Rightarrow>
        count' = wrap_int ?sum \<and> (?sum \<le> 2147483647 \<longrightarrow> count' = ?sum) \<and>
        image_levels this' (adaptive_level this) (image_offset_z_turnings this, m) =
          double_of_int count'"
    using count plain
    by (auto simp add: FindZTurnings_def Let_def split: prod.splits)
qed

theorem C8_z_turnings_stride_witness:
  "(- 2147483637::int) \<le> 40 \<and> (40::int) \<le> 2147483647 \<and> is_int 0 \<and> is_int 2147483647 \<and>
   24 \<in> set (counted_steps exact_ops example_integrator 0 40) \<and>
   13 \<in> set (tested_steps exact_ops example_integrator 0 40) \<and>
   (10::int) \<le> 13 \<and> (13::int) + 10 < 40 \<and>
   14 \<notin> set (tested_steps exact_ops example_integrator 0 40) \<and>
   length (counted_steps exact_ops example_integrator 0 40) = 2 \<and>
   snd (snd (FindZTurnings exact_ops example_integrator 0 40 (- 1) 0)) = 2 \<and>
   snd (snd (FindZTurnings exact_ops example_integrator 0 40 (- 1) 2147483647)) =
     - 2147483647"
proof -
  have trace: "scan_trace exact_ops example_integrator 0 29 =
      [(29, False), (28, False), (27, False), (26, False), (25, False), (24, True),
       (13, False), (12, True)]"
    by (simp add: scan_trace.simps turning_at_def example_integrator_def exact_ops_def
        MIN_DIFF_N_def dlt_def deq_def Let_def wrap_int_def)
  have counted: "24 \<in> set (counted_steps exact_ops example_integrator 0 40)"
    "length (counted_steps exact_ops example_integrator 0 40) = 2"
    and tested: "13 \<in> set (tested_steps exact_ops example_integrator 0 40)"
    by (simp_all add: counted_steps_def tested_steps_def MIN_DIFF_N_def wrap_int_def trace)
  have ints: "(- 2147483637::int) \<le> 40" "(40::int) \<le> 2147483647" "is_int 0"
    "is_int 2147483647"
    by (simp_all add: is_int_def)
  from counted tested ints
    C8_z_turnings_stride [OF ints(1) ints(2) ints(3), where fp = exact_ops
      and this = example_integrator and m = 0 and n_start = "- 1"]
    C8_z_turnings_stride [OF ints(1) ints(2) ints(4), where fp = exact_ops
      and this = example_integrator and m = 0 and n_start = "- 1"]
  show ?thesis
    by (auto simp add: wrap_int_def split: prod.splits)
qed

section \<open>Properties of the construction\<close>

lemma seq_thrown: "thrown s \<noteq> None \<Longrightarrow> seq cs s = s"
  by (cases cs) auto

lemma seq_append: "seq (cs @ ds) s = seq ds (seq cs s)"
proof (induction cs arbitrary: s)
  case Nil
  show ?case by simp
next
  case (Cons c cs)
  show ?case
  proof (cases "thrown s = None")
    case True
    then show ?thesis by (simp add: Cons.IH)
  next
    case False
    then show ?thesis using seq_thrown [of s] by auto
  qed
qed

lemma seq_seq_Cons: "seq (seq cs # ds) s = seq ds (seq cs s)"
  using seq_thrown [of s] by (cases "thrown s = None") auto

lemma thrown_seq_None: "thrown (seq cs s) = None \<Longrightarrow> thrown s = None"
  using seq_thrown [of s cs] by (cases "thrown s") auto

lemma stableD: "stable f c \<Longrightarrow> f (c s) = f s"
  by (simp add: stable_def)

lemma stable_seq_Nil: "stable f (seq [])"
  by (simp add: stable_def)

lemma stable_seq_Cons: "stable f c \<Longrightarrow> stable f (seq cs) \<Longrightarrow> stable f (seq (c # cs))"
  by (simp add: stable_def)

lemma stable_seq_append: "stable f (seq cs) \<Longrightarrow> stable f (seq ds) \<Longrightarrow> stable f (seq (cs @ ds))"
  by (simp add: stable_def seq_append)

lemma stable_seq_map: "(\<And>i. stable f (g i)) \<Longrightarrow> stable f (seq (map g xs))"
  by (induction xs) (simp_all add: stable_seq_Nil stable_seq_Cons)

lemma stable_throw: "(\<And>g s. f (thrown_update g s) = f s) \<Longrightarrow> stable f (throw e)"
  by (simp add: stable_def throw_def)

lemma stable_BlacklightWarning:
  "(\<And>g s. f (warnings_update g s) = f s) \<Longrightarrow> stable f (BlacklightWarning m)"
  by (simp add: stable_def BlacklightWarning_def)

lemma stable_value_then:
  "(\<And>g s. f (thrown_update g s) = f s) \<Longrightarrow> (\<And>v. stable f (k v)) \<Longrightarrow> stable f (value_then opt k)"
  by (simp add: stable_def value_then_def throw_def split: option.splits)

lemma stable_copy:
  "(\<And>g s. f (thrown_update g s) = f s) \<Longrightarrow> (\<And>g s. f (member_update g s) = f s) \<Longrightarrow>
     stable f (copy opt member_update)"
  by (simp add: stable_def copy_def value_then_def throw_def split: option.splits)

lemma stable_copy_at:
  "(\<And>g s. f (thrown_update g s) = f s) \<Longrightarrow> (\<And>g s. f (member_update g s) = f s) \<Longrightarrow>
     stable f (copy_at opt member_update i)"
  by (simp add: stable_def copy_at_def value_then_def throw_def split: option.splits)

lemma stable_assign: "(\<And>g s. f (member_update g s) = f s) \<Longrightarrow> stable f (assign member_update e)"
  by (simp add: stable_def assign_def)

lemma stable_if_then: "stable f (seq cs) \<Longrightarrow> stable f (if_then b cs)"
  by (simp add: stable_def if_then_def)

lemma stable_if_then_else:
  "stable f (seq cs) \<Longrightarrow> stable f (seq ds) \<Longrightarrow> stable f (if_then_else b cs ds)"
  by (simp add: stable_def if_then_else_def)

lemma stable_for_loop: "(\<And>i. stable f (seq (body i))) \<Longrightarrow> stable f (for_loop n body)"
  using stable_seq_map [of f "\<lambda>i. seq (body i)"] by (simp add: stable_def for_loop_def)

lemmas stable_rules = stable_seq_Nil stable_seq_Cons stable_seq_append stable_throw
  stable_BlacklightWarning stable_value_then stable_copy stable_copy_at stable_assign
  stable_if_then stable_if_then_else stable_for_loop

lemmas stage_defs = copy_general_def set_parameters_def copy_checkpoint_def copy_formula_def
  copy_simulation_def plasma_composition_def plasma_power_law_def
  plasma_kappa_distribution_def plasma_thermal_def copy_plasma_def copy_slow_light_def
  copy_fallback_def copy_camera_def image_light_selection_def image_other_selections_def
  copy_image_def copy_feature_def rendering_count_def rendering_features_def
  copy_rendering_def check_selection_def copy_ray_def adaptive_blocks_def
  adaptive_criteria_def copy_adaptive_def

lemma stable_model_type:
  "stable model_type (seq (set_parameters inp))"
  "stable model_type (seq (copy_checkpoint inp))"
  "stable model_type (seq (copy_formula inp))"
  "stable model_type (seq (copy_simulation inp))"
  "stable model_type (seq (copy_plasma fp inp))"
  "stable model_type (seq (copy_slow_light inp))"
  "stable model_type (seq (copy_fallback inp))"
  "stable model_type (seq (copy_camera inp))"
  "stable model_type (seq (copy_image inp))"
  "stable model_type (seq (copy_rendering inp))"
  "stable model_type (seq check_selection)"
  "stable model_type (seq (copy_ray inp))"
  "stable model_type (seq (copy_adaptive inp))"
  unfolding stage_defs by (intro stable_rules; simp)+

lemma raises_onlyD: "raises_only E c \<Longrightarrow> thrown s = None \<Longrightarrow> thrown (c s) = Some e \<Longrightarrow> E e"
  by (simp add: raises_only_def)

lemma raises_seq_Nil: "raises_only E (seq [])"
  by (simp add: raises_only_def)

lemma raises_seq_Cons:
  assumes "raises_only E c" and "raises_only E (seq cs)"
  shows "raises_only E (seq (c # cs))"
  unfolding raises_only_def
proof (intro allI impI)
  fix s e
  assume s: "thrown s = None" and e: "thrown (seq (c # cs) s) = Some e"
  show "E e"
  proof (cases "thrown (c s) = None")
    case True
    with assms(2) s e show ?thesis by (auto simp: raises_only_def)
  next
    case False
    with s e have "thrown (c s) = Some e" using seq_thrown [of "c s" cs] by auto
    with assms(1) s show ?thesis by (auto simp: raises_only_def)
  qed
qed

lemma raises_seq_append:
  assumes "raises_only E (seq cs)" and "raises_only E (seq ds)"
  shows "raises_only E (seq (cs @ ds))"
  unfolding raises_only_def
proof (intro allI impI)
  fix s e
  assume s: "thrown s = None" and e: "thrown (seq (cs @ ds) s) = Some e"
  show "E e"
  proof (cases "thrown (seq cs s) = None")
    case True
    with assms(2) e show ?thesis by (auto simp: raises_only_def seq_append)
  next
    case False
    with e have "thrown (seq cs s) = Some e"
      using seq_thrown [of "seq cs s" ds] by (auto simp: seq_append)
    with assms(1) s show ?thesis by (auto simp: raises_only_def)
  qed
qed

lemma raises_seq_map: "(\<And>i. raises_only E (g i)) \<Longrightarrow> raises_only E (seq (map g xs))"
  by (induction xs) (simp_all add: raises_seq_Nil raises_seq_Cons)

lemma raises_throw: "E e \<Longrightarrow> raises_only E (throw e)"
  by (simp add: raises_only_def throw_def)

lemma raises_BlacklightWarning: "raises_only E (BlacklightWarning m)"
  by (simp add: raises_only_def BlacklightWarning_def)

lemma raises_value_then:
  "E bad_optional_access \<Longrightarrow> (\<And>v. raises_only E (k v)) \<Longrightarrow> raises_only E (value_then opt k)"
  by (simp add: raises_only_def value_then_def throw_def split: option.splits)

lemma raises_copy:
  "E bad_optional_access \<Longrightarrow> (\<And>g s. thrown (member_update g s) = thrown s) \<Longrightarrow>
     raises_only E (copy opt member_update)"
  by (simp add: raises_only_def copy_def value_then_def throw_def split: option.splits)

lemma raises_copy_at:
  "E bad_optional_access \<Longrightarrow> (\<And>g s. thrown (member_update g s) = thrown s) \<Longrightarrow>
     raises_only E (copy_at opt member_update i)"
  by (simp add: raises_only_def copy_at_def value_then_def throw_def split: option.splits)

lemma raises_assign:
  "(\<And>g s. thrown (member_update g s) = thrown s) \<Longrightarrow> raises_only E (assign member_update e)"
  by (simp add: raises_only_def assign_def)

lemma raises_if_then: "raises_only E (seq cs) \<Longrightarrow> raises_only E (if_then b cs)"
  by (simp add: raises_only_def if_then_def)

lemma raises_if_then_else:
  "raises_only E (seq cs) \<Longrightarrow> raises_only E (seq ds) \<Longrightarrow> raises_only E (if_then_else b cs ds)"
  by (simp add: raises_only_def if_then_else_def)

lemma raises_for_loop: "(\<And>i. raises_only E (seq (body i))) \<Longrightarrow> raises_only E (for_loop n body)"
  using raises_seq_map [of E "\<lambda>i. seq (body i)"] by (simp add: raises_only_def for_loop_def)

lemmas raises_rules = raises_seq_Nil raises_seq_Cons raises_seq_append raises_throw
  raises_BlacklightWarning raises_value_then raises_copy raises_copy_at raises_assign
  raises_if_then raises_if_then_else raises_for_loop

lemma start_thrown [simp]:
  "thrown (RadiationIntegrator.extend init (construction.fields None [])) = None"
  by (simp add: RadiationIntegrator.extend_def construction.fields_def)

lemma seq_single: "thrown s = None \<Longrightarrow> seq [c] s = c s"
  by simp

lemma copy_general_model_type:
  assumes "thrown s = None" and "thrown (seq (copy_general inp) s) = None"
  shows "InputReader.model_type inp = Some (model_type (seq (copy_general inp) s))"
  using assms
  by (auto simp add: copy_general_def copy_def value_then_def throw_def split: option.splits)

lemma copy_checkpoint_flags:
  assumes "thrown s = None" and "model_type s = simulation"
    and "thrown (seq (copy_checkpoint inp) s) = None"
  shows "InputReader.checkpoint_sample_save inp =
           Some (checkpoint_sample_save (seq (copy_checkpoint inp) s)) \<and>
         InputReader.checkpoint_sample_load inp =
           Some (checkpoint_sample_load (seq (copy_checkpoint inp) s))"
  using assms
  by (auto simp add: copy_checkpoint_def copy_def value_then_def throw_def if_then_def
      if_then_else_def split: option.splits)

lemma copy_slow_light_throws:
  assumes "thrown s = None" and "model_type s = simulation"
    and "InputReader.slow_light_on inp = Some True"
    and "checkpoint_sample_save s \<or> checkpoint_sample_load s"
  shows "thrown (seq (copy_slow_light inp) s) =
           Some (BlacklightException ''Cannot use sample checkpoints with slow light.'')"
  using assms
  by (auto simp add: copy_slow_light_def copy_def value_then_def throw_def if_then_def)

lemma stable_checkpoint_flags:
  "stable checkpoint_sample_save (seq (copy_formula inp))"
  "stable checkpoint_sample_save (seq (copy_simulation inp))"
  "stable checkpoint_sample_save (seq (copy_plasma fp inp))"
  "stable checkpoint_sample_load (seq (copy_formula inp))"
  "stable checkpoint_sample_load (seq (copy_simulation inp))"
  "stable checkpoint_sample_load (seq (copy_plasma fp inp))"
  unfolding stage_defs by (intro stable_rules; simp)+

lemma preservesD: "preserves I c \<Longrightarrow> I s \<Longrightarrow> I (c s)"
  by (simp add: preserves_def)

lemma preserves_seq_Nil: "preserves I (seq [])"
  by (simp add: preserves_def)

lemma preserves_seq_Cons: "preserves I c \<Longrightarrow> preserves I (seq cs) \<Longrightarrow> preserves I (seq (c # cs))"
  by (simp add: preserves_def)

lemma preserves_seq_append:
  "preserves I (seq cs) \<Longrightarrow> preserves I (seq ds) \<Longrightarrow> preserves I (seq (cs @ ds))"
  by (simp add: preserves_def seq_append)

lemma preserves_seq_map: "(\<And>i. preserves I (g i)) \<Longrightarrow> preserves I (seq (map g xs))"
  by (induction xs) (simp_all add: preserves_seq_Nil preserves_seq_Cons)

lemma preserves_throw: "(\<And>g s. I s \<Longrightarrow> I (thrown_update g s)) \<Longrightarrow> preserves I (throw e)"
  by (simp add: preserves_def throw_def)

lemma preserves_BlacklightWarning:
  "(\<And>s. I s \<Longrightarrow> I (s\<lparr> warnings := warnings s @ [m] \<rparr>)) \<Longrightarrow> preserves I (BlacklightWarning m)"
  by (simp add: preserves_def BlacklightWarning_def)

lemma preserves_value_then:
  "(\<And>g s. I s \<Longrightarrow> I (thrown_update g s)) \<Longrightarrow> (\<And>v. preserves I (k v)) \<Longrightarrow>
     preserves I (value_then opt k)"
  by (simp add: preserves_def value_then_def throw_def split: option.splits)

lemma preserves_copy:
  "(\<And>g s. I s \<Longrightarrow> I (thrown_update g s)) \<Longrightarrow> (\<And>g s. I s \<Longrightarrow> I (member_update g s)) \<Longrightarrow>
     preserves I (copy opt member_update)"
  by (simp add: preserves_def copy_def value_then_def throw_def split: option.splits)

lemma preserves_copy_at:
  "(\<And>g s. I s \<Longrightarrow> I (thrown_update g s)) \<Longrightarrow> (\<And>g s. I s \<Longrightarrow> I (member_update g s)) \<Longrightarrow>
     preserves I (copy_at opt member_update i)"
  by (simp add: preserves_def copy_at_def value_then_def throw_def split: option.splits)

lemma preserves_assign:
  "(\<And>g s. I s \<Longrightarrow> I (member_update g s)) \<Longrightarrow> preserves I (assign member_update e)"
  by (simp add: preserves_def assign_def)

lemma preserves_if_then: "preserves I (seq cs) \<Longrightarrow> preserves I (if_then b cs)"
  by (simp add: preserves_def if_then_def)

lemma preserves_if_then_else:
  "preserves I (seq cs) \<Longrightarrow> preserves I (seq ds) \<Longrightarrow> preserves I (if_then_else b cs ds)"
  by (simp add: preserves_def if_then_else_def)

lemma preserves_for_loop: "(\<And>i. preserves I (seq (body i))) \<Longrightarrow> preserves I (for_loop n body)"
  using preserves_seq_map [of I "\<lambda>i. seq (body i)"] by (simp add: preserves_def for_loop_def)

lemmas preserves_rules = preserves_seq_Nil preserves_seq_Cons preserves_seq_append
  preserves_throw preserves_BlacklightWarning preserves_value_then preserves_copy
  preserves_copy_at preserves_assign preserves_if_then preserves_if_then_else
  preserves_for_loop

lemma thrown_seq_Some: "thrown s = Some e \<Longrightarrow> thrown (seq cs s) = Some e"
  by (simp add: seq_thrown)



subsection \<open>What single blocks write\<close>

lemma plasma_kappa_distribution_values:
  assumes "thrown s = None" and "thrown (seq (plasma_kappa_distribution inp) s) = None"
  shows "InputReader.plasma_kappa_frac inp =
           Some (plasma_kappa_frac (seq (plasma_kappa_distribution inp) s)) \<and>
         (dne (plasma_kappa_frac (seq (plasma_kappa_distribution inp) s)) (Fin 0) \<longrightarrow>
          InputReader.plasma_kappa inp =
            Some (plasma_kappa (seq (plasma_kappa_distribution inp) s)))"
  using assms
  by (auto simp add: plasma_kappa_distribution_def copy_def value_then_def throw_def
      if_then_def BlacklightWarning_def split: option.splits if_splits)

lemma copy_camera_resolution:
  assumes "thrown s = None" and "thrown (seq (copy_camera inp) s) = None"
  shows "InputReader.camera_resolution inp = Some (camera_resolution (seq (copy_camera inp) s))"
  using assms
  by (auto simp add: copy_camera_def copy_def value_then_def throw_def
      split: option.splits if_splits)












subsection \<open>Members that later blocks leave alone\<close>

lemma model_type_kept:
  "model_type (seq (set_parameters inp) s) = model_type s"
  "model_type (seq (copy_checkpoint inp) s) = model_type s"
  "model_type (seq (copy_formula inp) s) = model_type s"
  "model_type (seq (copy_simulation inp) s) = model_type s"
  "model_type (seq (copy_plasma fp inp) s) = model_type s"
  "model_type (seq (copy_slow_light inp) s) = model_type s"
  "model_type (seq (copy_fallback inp) s) = model_type s"
  "model_type (seq (copy_camera inp) s) = model_type s"
  "model_type (seq (image_light_selection inp) s) = model_type s"
  "model_type (seq (copy_image inp) s) = model_type s"
  "model_type (seq (rendering_count inp) s) = model_type s"
  "model_type (seq (copy_rendering inp) s) = model_type s"
  "model_type (seq (check_selection) s) = model_type s"
  "model_type (seq (copy_ray inp) s) = model_type s"
  "model_type (seq (plasma_composition inp) s) = model_type s"
  "model_type (seq (plasma_power_law inp) s) = model_type s"
  "model_type (seq (plasma_kappa_distribution inp) s) = model_type s"
  "model_type (seq (plasma_thermal fp inp) s) = model_type s"
  unfolding stage_defs by (rule stableD, (intro stable_rules; simp))+

lemma checkpoint_kept:
  "checkpoint_sample_save (seq (copy_formula inp) s) = checkpoint_sample_save s"
  "checkpoint_sample_save (seq (copy_simulation inp) s) = checkpoint_sample_save s"
  "checkpoint_sample_save (seq (copy_plasma fp inp) s) = checkpoint_sample_save s"
  "checkpoint_sample_load (seq (copy_formula inp) s) = checkpoint_sample_load s"
  "checkpoint_sample_load (seq (copy_simulation inp) s) = checkpoint_sample_load s"
  "checkpoint_sample_load (seq (copy_plasma fp inp) s) = checkpoint_sample_load s"
  unfolding stage_defs by (rule stableD, (intro stable_rules; simp))+

lemma kappa_kept:
  "plasma_kappa_frac (seq (plasma_thermal fp inp) s) = plasma_kappa_frac s"
  "plasma_kappa_frac (seq (copy_slow_light inp) s) = plasma_kappa_frac s"
  "plasma_kappa_frac (seq (copy_fallback inp) s) = plasma_kappa_frac s"
  "plasma_kappa_frac (seq (copy_camera inp) s) = plasma_kappa_frac s"
  "plasma_kappa (seq (plasma_thermal fp inp) s) = plasma_kappa s"
  "plasma_kappa (seq (copy_slow_light inp) s) = plasma_kappa s"
  "plasma_kappa (seq (copy_fallback inp) s) = plasma_kappa s"
  "plasma_kappa (seq (copy_camera inp) s) = plasma_kappa s"
  unfolding stage_defs by (rule stableD, (intro stable_rules; simp))+





subsection \<open>The checks\<close>

lemma dless_asym: "dless a b \<Longrightarrow> \<not> dless b a"
  by (cases a; cases b) auto

lemma dge_not_dlt: "dge a b \<Longrightarrow> \<not> dlt a b"
  using dless_asym [of a b] by (auto simp add: dge_def dle_def dlt_def deq_def)

lemma dle_not_dgt: "dle a b \<Longrightarrow> \<not> dgt a b"
  using dless_asym [of a b] by (auto simp add: dgt_def dle_def dlt_def deq_def)

lemma image_light_selection_kappa_throws:
  assumes "thrown s = None" and "model_type s = simulation"
    and "InputReader.image_light inp = Some True"
    and "InputReader.image_polarization inp = Some True"
    and "dne (plasma_kappa_frac s) (Fin 0)"
    and "dlt (plasma_kappa s) (Fin (7 / 2)) \<or> dgt (plasma_kappa s) (Fin 5)"
  shows "thrown (seq (image_light_selection inp) s) \<noteq> None"
  using assms
  by (auto simp add: image_light_selection_def copy_def value_then_def throw_def if_then_def
      if_then_else_def split: option.splits)

lemma image_light_selection_kappa_warns:
  assumes "thrown s = None" and "model_type s = simulation"
    and "InputReader.image_light inp = Some True"
    and "InputReader.image_polarization inp = Some True"
    and "dne (plasma_kappa_frac s) (Fin 0)"
    and "\<not> dlt (plasma_kappa s) (Fin (7 / 2))" and "\<not> dgt (plasma_kappa s) (Fin 5)"
    and "dne (plasma_kappa s) (Fin (7 / 2))" and "dne (plasma_kappa s) (Fin 4)"
    and "dne (plasma_kappa s) (Fin (9 / 2))" and "dne (plasma_kappa s) (Fin 5)"
  shows "thrown (seq (image_light_selection inp) s) \<noteq>
           Some (BlacklightException ''Polarized transport only supports kappa in [3.5, 5].'') \<and>
         (thrown (seq (image_light_selection inp) s) = None \<longrightarrow>
          ''Polarized transport will interpolate formulas based on kappa.''
            \<in> set (warnings (seq (image_light_selection inp) s)))"
  using assms
  by (auto simp add: image_light_selection_def copy_def value_then_def throw_def if_then_def
      if_then_else_def BlacklightWarning_def split: option.splits)




lemma check_selection_members:
  "image_light (seq check_selection s) = image_light s"
  by (auto simp add: check_selection_def throw_def if_then_def)

subsection \<open>The constructor, block by block\<close>

lemma ctor_unfold:
  "RadiationIntegrator_ctor fp inp init =
     seq (copy_adaptive inp)
       (seq (copy_ray inp)
       (seq check_selection
       (seq (copy_rendering inp)
       (seq (copy_image inp)
       (seq (copy_camera inp)
       (seq (copy_fallback inp)
       (seq (copy_slow_light inp)
       (seq (copy_plasma fp inp)
       (seq (copy_simulation inp)
       (seq (copy_formula inp)
       (seq (copy_checkpoint inp)
       (seq (set_parameters inp)
       (seq (copy_general inp)
       (RadiationIntegrator.extend init (construction.fields None [])))))))))))))))"
  by (simp only: RadiationIntegrator_ctor_def seq_seq_Cons seq.simps(1))

lemma copy_plasma_simulation:
  "thrown s = None \<Longrightarrow> model_type s = simulation \<Longrightarrow>
     seq (copy_plasma fp inp) s =
       seq (plasma_thermal fp inp) (seq (plasma_kappa_distribution inp)
         (seq (plasma_power_law inp) (seq (plasma_composition inp) s)))"
  by (simp add: copy_plasma_def if_then_def seq_append)

lemma copy_plasma_values:
  assumes s: "thrown s = None" and model: "model_type s = simulation"
    and fin: "thrown (seq (copy_plasma fp inp) s) = None"
  shows "InputReader.plasma_kappa_frac inp =
           Some (plasma_kappa_frac (seq (copy_plasma fp inp) s)) \<and>
         (dne (plasma_kappa_frac (seq (copy_plasma fp inp) s)) (Fin 0) \<longrightarrow>
          InputReader.plasma_kappa inp = Some (plasma_kappa (seq (copy_plasma fp inp) s)))"
proof -
  define u where "u = seq (plasma_power_law inp) (seq (plasma_composition inp) s)"
  have whole: "seq (copy_plasma fp inp) s =
      seq (plasma_thermal fp inp) (seq (plasma_kappa_distribution inp) u)"
    unfolding u_def using s model by (rule copy_plasma_simulation)
  from fin have k: "thrown (seq (plasma_kappa_distribution inp) u) = None"
    unfolding whole by (rule thrown_seq_None)
  then have "thrown u = None"
    by (rule thrown_seq_None)
  from plasma_kappa_distribution_values [OF this k] show ?thesis
    by (simp add: whole kappa_kept)
qed

text \<open>What holds after the plasma parameters, when nothing was thrown.\<close>

lemma after_plasma:
  fixes fp inp s
  defines "t \<equiv> seq (copy_plasma fp inp) (seq (copy_simulation inp) (seq (copy_formula inp)
      (seq (copy_checkpoint inp) (seq (set_parameters inp) (seq (copy_general inp) s)))))"
  assumes s: "thrown s = None" and t: "thrown t = None"
  shows "InputReader.model_type inp = Some (model_type t)"
    and "model_type t = simulation \<Longrightarrow>
      InputReader.checkpoint_sample_save inp = Some (checkpoint_sample_save t) \<and>
      InputReader.checkpoint_sample_load inp = Some (checkpoint_sample_load t) \<and>
      InputReader.plasma_kappa_frac inp = Some (plasma_kappa_frac t) \<and>
      (dne (plasma_kappa_frac t) (Fin 0) \<longrightarrow>
       InputReader.plasma_kappa inp = Some (plasma_kappa t))"
proof -
  define t1 where "t1 = seq (copy_general inp) s"
  define t2 where "t2 = seq (set_parameters inp) t1"
  define t3 where "t3 = seq (copy_checkpoint inp) t2"
  define t5 where "t5 = seq (copy_simulation inp) (seq (copy_formula inp) t3)"
  have t_eq: "t = seq (copy_plasma fp inp) t5"
    by (simp add: t_def t1_def t2_def t3_def t5_def)
  from t have n5: "thrown t5 = None"
    unfolding t_eq by (rule thrown_seq_None)
  then have n3: "thrown t3 = None"
    unfolding t5_def by (blast dest: thrown_seq_None)
  then have n2: "thrown t2 = None"
    unfolding t3_def by (rule thrown_seq_None)
  then have n1: "thrown t1 = None"
    unfolding t2_def by (rule thrown_seq_None)
  have m: "model_type t = model_type t1" "model_type t5 = model_type t1"
    "model_type t2 = model_type t1"
    by (simp_all add: t_eq t5_def t3_def t2_def model_type_kept)
  from copy_general_model_type [OF s, of inp] n1
  show "InputReader.model_type inp = Some (model_type t)"
    by (simp add: m t1_def)
  assume sim: "model_type t = simulation"
  with m have m2: "model_type t2 = simulation" and m5: "model_type t5 = simulation"
    by simp_all
  from copy_checkpoint_flags [OF n2 m2, of inp] n3
  have "InputReader.checkpoint_sample_save inp = Some (checkpoint_sample_save t3) \<and>
      InputReader.checkpoint_sample_load inp = Some (checkpoint_sample_load t3)"
    by (simp add: t3_def)
  moreover have "checkpoint_sample_save t = checkpoint_sample_save t3"
    "checkpoint_sample_load t = checkpoint_sample_load t3"
    by (simp_all add: t_eq t5_def checkpoint_kept)
  moreover from copy_plasma_values [OF n5 m5, of fp inp] t
  have "InputReader.plasma_kappa_frac inp = Some (plasma_kappa_frac t) \<and>
      (dne (plasma_kappa_frac t) (Fin 0) \<longrightarrow>
       InputReader.plasma_kappa inp = Some (plasma_kappa t))"
    by (simp add: t_eq)
  ultimately show "InputReader.checkpoint_sample_save inp = Some (checkpoint_sample_save t) \<and>
      InputReader.checkpoint_sample_load inp = Some (checkpoint_sample_load t) \<and>
      InputReader.plasma_kappa_frac inp = Some (plasma_kappa_frac t) \<and>
      (dne (plasma_kappa_frac t) (Fin 0) \<longrightarrow>
       InputReader.plasma_kappa inp = Some (plasma_kappa t))"
    by simp
qed

text \<open>What holds after the camera parameters.\<close>

lemma after_camera:
  fixes inp t
  defines "c \<equiv> seq (copy_camera inp) (seq (copy_fallback inp) (seq (copy_slow_light inp) t))"
  assumes c: "thrown c = None"
  shows "model_type c = model_type t" and "plasma_kappa_frac c = plasma_kappa_frac t"
    and "plasma_kappa c = plasma_kappa t"
    and "InputReader.camera_resolution inp = Some (camera_resolution c)"
    and "thrown t = None"
proof -
  show "model_type c = model_type t" "plasma_kappa_frac c = plasma_kappa_frac t"
    "plasma_kappa c = plasma_kappa t"
    by (simp_all add: c_def model_type_kept kappa_kept)
  from c have f: "thrown (seq (copy_fallback inp) (seq (copy_slow_light inp) t)) = None"
    unfolding c_def by (rule thrown_seq_None)
  from copy_camera_resolution [OF f] c
  show "InputReader.camera_resolution inp = Some (camera_resolution c)"
    by (simp add: c_def)
  from f show "thrown t = None"
    by (blast dest: thrown_seq_None)
qed


subsection \<open>The exceptions of each block\<close>

lemma raises_stages:
  "E bad_optional_access \<Longrightarrow> raises_only E (seq (copy_general inp))"
  "E bad_optional_access \<Longrightarrow> raises_only E (seq (set_parameters inp))"
  "E bad_optional_access \<Longrightarrow>
     E (BlacklightException ''Cannot both save and load a sample checkpoint.'') \<Longrightarrow> raises_only E (seq (copy_checkpoint inp))"
  "E bad_optional_access \<Longrightarrow> raises_only E (seq (copy_formula inp))"
  "E bad_optional_access \<Longrightarrow> raises_only E (seq (copy_simulation inp))"
  "E bad_optional_access \<Longrightarrow> raises_only E (seq (copy_plasma fp inp))"
  "E bad_optional_access \<Longrightarrow>
     E (BlacklightException ''Cannot use sample checkpoints with slow light.'') \<Longrightarrow> raises_only E (seq (copy_slow_light inp))"
  "E bad_optional_access \<Longrightarrow> raises_only E (seq (copy_fallback inp))"
  "E bad_optional_access \<Longrightarrow> raises_only E (seq (copy_camera inp))"
  "E bad_optional_access \<Longrightarrow>
     E (BlacklightException ''Polarized transport only supports kappa in [3.5, 5].'') \<Longrightarrow> raises_only E (seq (copy_image inp))"
  "E bad_optional_access \<Longrightarrow>
     E (BlacklightException ''Must have positive number of features for each rendered image.'') \<Longrightarrow> raises_only E (seq (copy_rendering inp))"
  "E bad_optional_access \<Longrightarrow>
     E (BlacklightException ''No image or rendering selected.'') \<Longrightarrow> raises_only E (seq (check_selection))"
  "E bad_optional_access \<Longrightarrow> raises_only E (seq (copy_ray inp))"
  "E bad_optional_access \<Longrightarrow>
     E (BlacklightException ''Adaptive ray tracing requires image_light.'') \<Longrightarrow>
     E (BlacklightException ''Must have positive adaptive_block_size.'') \<Longrightarrow>
     E (BlacklightException ''Must have adaptive_block_size divide camera_resolution.'') \<Longrightarrow> raises_only E (seq (copy_adaptive inp))"
  "E bad_optional_access \<Longrightarrow> raises_only E (seq (image_other_selections inp))"
  "E bad_optional_access \<Longrightarrow> raises_only E (seq (adaptive_criteria inp))"
  unfolding stage_defs by (intro raises_rules; simp)+

lemma preserves_warning_stages:
  "preserves (\<lambda>s. w \<in> set (warnings s)) (seq (image_other_selections inp))"
  "preserves (\<lambda>s. w \<in> set (warnings s)) (seq (copy_rendering inp))"
  "preserves (\<lambda>s. w \<in> set (warnings s)) (seq check_selection)"
  "preserves (\<lambda>s. w \<in> set (warnings s)) (seq (copy_ray inp))"
  "preserves (\<lambda>s. w \<in> set (warnings s)) (seq (copy_adaptive inp))"
  unfolding stage_defs by (intro preserves_rules; simp)+

text \<open>An exception raised by a block of the constructor is raised by one of its parts.\<close>

lemma raised_seq:
  assumes "thrown s = None" and "thrown (seq cs s) = Some e" and "raises_only E (seq cs)"
  shows "E e"
  using assms by (auto dest: raises_onlyD)

lemma raised_seq2:
  assumes "thrown s = None" and "thrown (seq ds (seq cs s)) = Some e"
    and "raises_only E (seq cs)" and "raises_only E (seq ds)"
  shows "E e"
proof (cases "thrown (seq cs s)")
  case None
  with assms(2,4) show ?thesis by (auto dest: raises_onlyD)
next
  case (Some e')
  with assms(2) have "e' = e" by (simp add: seq_thrown)
  with Some assms(1,3) show ?thesis by (auto dest: raises_onlyD)
qed

lemma raised_before_slow_light:
  assumes E: "E bad_optional_access" "E (BlacklightException ''Cannot both save and load a sample checkpoint.'')"
    and s: "thrown s = None"
    and e: "thrown (seq (copy_plasma fp inp) (seq (copy_simulation inp) (seq (copy_formula inp) (seq (copy_checkpoint inp) (seq (set_parameters inp) (seq (copy_general inp) s)))))) = Some e"
  shows "E e"
proof -
  have r: "raises_only E (seq [seq (copy_general inp), seq (set_parameters inp), seq (copy_checkpoint inp), seq (copy_formula inp), seq (copy_simulation inp), seq (copy_plasma fp inp)])"
    by (intro raises_seq_Cons raises_seq_Nil raises_stages E)
  have "seq (copy_plasma fp inp) (seq (copy_simulation inp) (seq (copy_formula inp) (seq (copy_checkpoint inp) (seq (set_parameters inp) (seq (copy_general inp) s))))) = seq [seq (copy_general inp), seq (set_parameters inp), seq (copy_checkpoint inp), seq (copy_formula inp), seq (copy_simulation inp), seq (copy_plasma fp inp)] s"
    by (simp only: seq_seq_Cons seq.simps(1))
  with e have "thrown (seq [seq (copy_general inp), seq (set_parameters inp), seq (copy_checkpoint inp), seq (copy_formula inp), seq (copy_simulation inp), seq (copy_plasma fp inp)] s) = Some e"
    by (simp only:)
  from raises_onlyD [OF r s this] show ?thesis .
qed

lemma raised_before_image:
  assumes E: "E bad_optional_access" "E (BlacklightException ''Cannot both save and load a sample checkpoint.'')" "E (BlacklightException ''Cannot use sample checkpoints with slow light.'')"
    and s: "thrown s = None"
    and e: "thrown (seq (copy_camera inp) (seq (copy_fallback inp) (seq (copy_slow_light inp) (seq (copy_plasma fp inp) (seq (copy_simulation inp) (seq (copy_formula inp) (seq (copy_checkpoint inp) (seq (set_parameters inp) (seq (copy_general inp) s))))))))) = Some e"
  shows "E e"
proof -
  have r: "raises_only E (seq [seq (copy_general inp), seq (set_parameters inp), seq (copy_checkpoint inp), seq (copy_formula inp), seq (copy_simulation inp), seq (copy_plasma fp inp), seq (copy_slow_light inp), seq (copy_fallback inp), seq (copy_camera inp)])"
    by (intro raises_seq_Cons raises_seq_Nil raises_stages E)
  have "seq (copy_camera inp) (seq (copy_fallback inp) (seq (copy_slow_light inp) (seq (copy_plasma fp inp) (seq (copy_simulation inp) (seq (copy_formula inp) (seq (copy_checkpoint inp) (seq (set_parameters inp) (seq (copy_general inp) s)))))))) = seq [seq (copy_general inp), seq (set_parameters inp), seq (copy_checkpoint inp), seq (copy_formula inp), seq (copy_simulation inp), seq (copy_plasma fp inp), seq (copy_slow_light inp), seq (copy_fallback inp), seq (copy_camera inp)] s"
    by (simp only: seq_seq_Cons seq.simps(1))
  with e have "thrown (seq [seq (copy_general inp), seq (set_parameters inp), seq (copy_checkpoint inp), seq (copy_formula inp), seq (copy_simulation inp), seq (copy_plasma fp inp), seq (copy_slow_light inp), seq (copy_fallback inp), seq (copy_camera inp)] s) = Some e"
    by (simp only:)
  from raises_onlyD [OF r s this] show ?thesis .
qed




subsection \<open>Slow light and sample checkpoints\<close>

text \<open>What the constructor is run on in the examples: the definitions to evaluate.\<close>

lemmas statement_defs = throw_def BlacklightWarning_def value_then_def copy_def copy_at_def
  assign_def if_then_def if_then_else_def for_loop_def

lemmas run_defs = RadiationIntegrator_ctor_def stage_defs statement_defs example_input_def
  exact_ops_def dlt_def dgt_def deq_def dne_def dle_def dge_def
  RadiationIntegrator.extend_def construction.fields_def

text \<open>
  Claim C9. The model is the simulation, slow light is on, and the input asks to save or
  to load a sample checkpoint. Then the construction ends with an exception, whatever the
  rest of the input and whatever object it starts from. The exception is the one of the
  slow-light block, \<^verbatim>\<open>Cannot use sample checkpoints with slow light.\<close>, unless a statement
  before that block has thrown already: the checkpoint block when both flags are set, or
  the reader when a value read before is absent.
\<close>

theorem C9_slow_light_excludes_sample_checkpoints:
  assumes model: "InputReader.model_type inp = Some simulation"
    and slow: "InputReader.slow_light_on inp = Some True"
    and checkpoint: "InputReader.checkpoint_sample_save inp = Some True \<or>
        InputReader.checkpoint_sample_load inp = Some True"
  shows "thrown (RadiationIntegrator_ctor fp inp init) \<in>
           {Some bad_optional_access,
            Some (BlacklightException ''Cannot both save and load a sample checkpoint.''),
            Some (BlacklightException ''Cannot use sample checkpoints with slow light.'')}"
proof -
  define s0 where "s0 = RadiationIntegrator.extend init (construction.fields None [])"
  define P where "P = seq (copy_plasma fp inp) (seq (copy_simulation inp) (seq (copy_formula inp) (seq (copy_checkpoint inp) (seq (set_parameters inp) (seq (copy_general inp) s0)))))"
  define C where "C = seq (copy_camera inp) (seq (copy_fallback inp) (seq (copy_slow_light inp) P))"
  define R where "R = seq (copy_rendering inp) (seq (copy_image inp) C)"
  define Y where "Y = seq (copy_ray inp) (seq check_selection R)"
  have s0: "thrown s0 = None"
    by (simp add: s0_def)
  have ctor: "RadiationIntegrator_ctor fp inp init = seq (copy_adaptive inp) Y"
    by (simp only: ctor_unfold s0_def P_def C_def R_def Y_def)
  define rest where "rest = [seq (copy_fallback inp), seq (copy_camera inp),
      seq (copy_image inp), seq (copy_rendering inp), seq check_selection, seq (copy_ray inp),
      seq (copy_adaptive inp)]"
  have whole: "RadiationIntegrator_ctor fp inp init = seq rest (seq (copy_slow_light inp) P)"
    by (simp only: ctor Y_def R_def C_def rest_def seq_seq_Cons seq.simps(1))
  show ?thesis
  proof (cases "thrown P")
    case (Some e)
    then have "thrown (RadiationIntegrator_ctor fp inp init) = Some e"
      by (simp add: whole seq_thrown)
    moreover from Some have "e = bad_optional_access \<or>
        e = BlacklightException ''Cannot both save and load a sample checkpoint.''"
      unfolding P_def
      by (rule raised_before_slow_light [rotated 3]) (simp_all add: s0)
    ultimately show ?thesis
      by auto
  next
    case None
    from after_plasma [OF s0, of fp inp] None model
    have "model_type P = simulation"
      "InputReader.checkpoint_sample_save inp = Some (checkpoint_sample_save P)"
      "InputReader.checkpoint_sample_load inp = Some (checkpoint_sample_load P)"
      by (simp_all add: P_def)
    with checkpoint
    have "model_type P = simulation" "checkpoint_sample_save P \<or> checkpoint_sample_load P"
      by auto
    from copy_slow_light_throws [OF None this(1) slow this(2)]
    show ?thesis
      by (simp add: whole seq_thrown)
  qed
qed

theorem C9_slow_light_excludes_sample_checkpoints_witness:
  "InputReader.model_type slow_light_input = Some simulation \<and>
   InputReader.slow_light_on slow_light_input = Some True \<and>
   InputReader.checkpoint_sample_save slow_light_input = Some True \<and>
   thrown (RadiationIntegrator_ctor exact_ops slow_light_input example_integrator) =
     Some (BlacklightException ''Cannot use sample checkpoints with slow light.'')"
proof -
  have run: "thrown (RadiationIntegrator_ctor exact_ops slow_light_input example_integrator) =
     Some (BlacklightException ''Cannot use sample checkpoints with slow light.'')"
    by (simp add: run_defs slow_light_input_def)
  have "thrown (RadiationIntegrator_ctor exact_ops slow_light_input example_integrator) \<in>
           {Some bad_optional_access,
            Some (BlacklightException ''Cannot both save and load a sample checkpoint.''),
            Some (BlacklightException ''Cannot use sample checkpoints with slow light.'')}"
    by (rule C9_slow_light_excludes_sample_checkpoints)
      (simp_all add: slow_light_input_def example_input_def)
  with run show ?thesis
    by (simp add: slow_light_input_def example_input_def)
qed

subsection \<open>The range of kappa\<close>

text \<open>
  Claim C10. The model is the simulation, light and polarization are selected and
  \<^verbatim>\<open>plasma_kappa_frac\<close> is not zero. If \<open>kappa < 3.5\<close> or \<open>kappa > 5\<close> the construction ends
  with an exception. If \<open>kappa\<close> is in \<open>[3.5, 5]\<close> and is none of 3.5, 4, 4.5 and 5, the
  check of the range lets the construction go on with only a warning: it does not throw,
  and the construction, when it succeeds, has issued the warning about the interpolation
  in \<open>kappa\<close>.
\<close>

theorem C10_kappa_range:
  assumes model: "InputReader.model_type inp = Some simulation"
    and light: "InputReader.image_light inp = Some True"
    and polarization: "InputReader.image_polarization inp = Some True"
    and frac: "InputReader.plasma_kappa_frac inp = Some kappa_frac" "dne kappa_frac (Fin 0)"
    and kappa: "InputReader.plasma_kappa inp = Some kappa"
  shows "(dlt kappa (Fin (7 / 2)) \<or> dgt kappa (Fin 5) \<longrightarrow>
           thrown (RadiationIntegrator_ctor fp inp init) \<noteq> None) \<and>
         (dge kappa (Fin (7 / 2)) \<and> dle kappa (Fin 5) \<and> dne kappa (Fin (7 / 2)) \<and>
          dne kappa (Fin 4) \<and> dne kappa (Fin (9 / 2)) \<and> dne kappa (Fin 5) \<longrightarrow>
           thrown (RadiationIntegrator_ctor fp inp init) \<noteq>
             Some (BlacklightException
               ''Polarized transport only supports kappa in [3.5, 5].'') \<and>
           (thrown (RadiationIntegrator_ctor fp inp init) = None \<longrightarrow>
            ''Polarized transport will interpolate formulas based on kappa.''
              \<in> set (warnings (RadiationIntegrator_ctor fp inp init))))"
proof -
  define s0 where "s0 = RadiationIntegrator.extend init (construction.fields None [])"
  define P where "P = seq (copy_plasma fp inp) (seq (copy_simulation inp) (seq (copy_formula inp) (seq (copy_checkpoint inp) (seq (set_parameters inp) (seq (copy_general inp) s0)))))"
  define C where "C = seq (copy_camera inp) (seq (copy_fallback inp) (seq (copy_slow_light inp) P))"
  define R where "R = seq (copy_rendering inp) (seq (copy_image inp) C)"
  define Y where "Y = seq (copy_ray inp) (seq check_selection R)"
  have s0: "thrown s0 = None"
    by (simp add: s0_def)
  have ctor: "RadiationIntegrator_ctor fp inp init = seq (copy_adaptive inp) Y"
    by (simp only: ctor_unfold s0_def P_def C_def R_def Y_def)
  define L where "L = seq (image_light_selection inp) C"
  define rest where "rest = [seq (image_other_selections inp), seq (copy_rendering inp),
      seq check_selection, seq (copy_ray inp), seq (copy_adaptive inp)]"
  have whole: "RadiationIntegrator_ctor fp inp init = seq rest L"
    by (simp only: ctor Y_def R_def L_def rest_def copy_image_def seq_append seq_seq_Cons
        seq.simps(1))
  have rest_raises: "raises_only (\<lambda>e. e \<noteq> BlacklightException
      ''Polarized transport only supports kappa in [3.5, 5].'') (seq rest)"
    unfolding rest_def by (intro raises_seq_Cons raises_seq_Nil raises_stages) simp_all
  have rest_warns: "preserves (\<lambda>s. ''Polarized transport will interpolate formulas based on kappa.''
      \<in> set (warnings s)) (seq rest)"
    unfolding rest_def by (intro preserves_seq_Cons preserves_seq_Nil preserves_warning_stages)
  have members: "model_type C = simulation \<and> plasma_kappa_frac C = kappa_frac \<and>
      plasma_kappa C = kappa" if C: "thrown C = None"
  proof -
    from C have P: "thrown P = None" and kept: "model_type C = model_type P"
      "plasma_kappa_frac C = plasma_kappa_frac P" "plasma_kappa C = plasma_kappa P"
      unfolding C_def by (rule after_camera)+
    from after_plasma [OF s0, of fp inp] P model frac kappa
    show ?thesis
      unfolding kept P_def [symmetric] by auto
  qed
  show ?thesis
  proof (intro conjI impI)
    assume outside: "dlt kappa (Fin (7 / 2)) \<or> dgt kappa (Fin 5)"
    show "thrown (RadiationIntegrator_ctor fp inp init) \<noteq> None"
    proof (cases "thrown C")
      case (Some e)
      then have "thrown L = Some e"
        by (simp add: L_def seq_thrown)
      then show ?thesis
        by (simp add: whole seq_thrown)
    next
      case None
      with members frac(2) outside
      have "thrown L \<noteq> None"
        unfolding L_def
        by (intro image_light_selection_kappa_throws light polarization) simp_all
      then show ?thesis
        by (auto simp add: whole seq_thrown)
    qed
  next
    assume inside: "dge kappa (Fin (7 / 2)) \<and> dle kappa (Fin 5) \<and> dne kappa (Fin (7 / 2)) \<and>
        dne kappa (Fin 4) \<and> dne kappa (Fin (9 / 2)) \<and> dne kappa (Fin 5)"
    then have range: "\<not> dlt kappa (Fin (7 / 2))" "\<not> dgt kappa (Fin 5)"
      by (simp_all add: dge_not_dlt dle_not_dgt)
    have L: "thrown L \<noteq> Some (BlacklightException
          ''Polarized transport only supports kappa in [3.5, 5].'') \<and>
        (thrown L = None \<longrightarrow> ''Polarized transport will interpolate formulas based on kappa.''
          \<in> set (warnings L))"
    proof (cases "thrown C")
      case (Some e)
      then have "e \<noteq> BlacklightException
          ''Polarized transport only supports kappa in [3.5, 5].''"
        unfolding C_def P_def
        by (rule raised_before_image [rotated 4]) (simp_all add: s0)
      with Some show ?thesis
        by (simp add: L_def seq_thrown)
    next
      case None
      with members frac(2) inside range
      show ?thesis
        unfolding L_def
        by (intro image_light_selection_kappa_warns light polarization) simp_all
    qed
    show "thrown (RadiationIntegrator_ctor fp inp init) \<noteq>
        Some (BlacklightException ''Polarized transport only supports kappa in [3.5, 5].'')"
    proof (cases "thrown L")
      case None
      show ?thesis
      proof
        assume "thrown (RadiationIntegrator_ctor fp inp init) =
          Some (BlacklightException ''Polarized transport only supports kappa in [3.5, 5].'')"
        then have "thrown (seq rest L) =
          Some (BlacklightException ''Polarized transport only supports kappa in [3.5, 5].'')"
          by (simp only: whole)
        from raises_onlyD [OF rest_raises None this] show False
          by simp
      qed
    next
      case (Some e)
      with L show ?thesis
        by (simp add: whole seq_thrown)
    qed
    show "''Polarized transport will interpolate formulas based on kappa.''
        \<in> set (warnings (RadiationIntegrator_ctor fp inp init))"
      if "thrown (RadiationIntegrator_ctor fp inp init) = None"
    proof -
      from that have "thrown (seq rest L) = None"
        by (simp only: whole)
      then have "thrown L = None"
        by (rule thrown_seq_None)
      with L have "''Polarized transport will interpolate formulas based on kappa.''
          \<in> set (warnings L)"
        by simp
      from preservesD [OF rest_warns, of L, OF this] show ?thesis
        by (simp only: whole)
    qed
  qed
qed

theorem C10_kappa_range_witness:
  "InputReader.model_type low_kappa_input = Some simulation \<and>
   InputReader.image_light low_kappa_input = Some True \<and>
   InputReader.image_polarization low_kappa_input = Some True \<and>
   InputReader.plasma_kappa_frac low_kappa_input = Some (Fin (1 / 2)) \<and>
   dne (Fin (1 / 2)) (Fin 0) \<and>
   InputReader.plasma_kappa low_kappa_input = Some (Fin 3) \<and>
   dlt (Fin 3) (Fin (7 / 2)) \<and>
   thrown (RadiationIntegrator_ctor exact_ops low_kappa_input example_integrator) \<noteq> None \<and>
   InputReader.plasma_kappa example_input = Some (Fin (15 / 4)) \<and>
   dge (Fin (15 / 4)) (Fin (7 / 2)) \<and> dle (Fin (15 / 4)) (Fin 5) \<and>
   thrown (RadiationIntegrator_ctor exact_ops example_input example_integrator) = None \<and>
   ''Polarized transport will interpolate formulas based on kappa.''
     \<in> set (warnings (RadiationIntegrator_ctor exact_ops example_input example_integrator))"
proof -
  have run: "thrown (RadiationIntegrator_ctor exact_ops example_input example_integrator) = None"
    by (simp add: run_defs)
  have cmp: "dne (Fin (1 / 2)) (Fin 0)" "dlt (Fin 3) (Fin (7 / 2))"
    "dge (Fin (15 / 4)) (Fin (7 / 2))" "dle (Fin (15 / 4)) (Fin 5)"
    "dne (Fin (15 / 4)) (Fin (7 / 2))" "dne (Fin (15 / 4)) (Fin 4)"
    "dne (Fin (15 / 4)) (Fin (9 / 2))" "dne (Fin (15 / 4)) (Fin 5)"
    by (simp_all add: dlt_def dgt_def deq_def dne_def dle_def dge_def)
  from cmp run
    C10_kappa_range [where inp = low_kappa_input and kappa_frac = "Fin (1 / 2)"
      and kappa = "Fin 3" and fp = exact_ops and init = example_integrator]
    C10_kappa_range [where inp = example_input and kappa_frac = "Fin (1 / 2)"
      and kappa = "Fin (15 / 4)" and fp = exact_ops and init = example_integrator]
  show ?thesis
    by (simp add: low_kappa_input_def example_input_def)
qed

subsection \<open>The block size of the adaptive refinement\<close>




subsection \<open>The selection of images\<close>




end
